theory Spec2Isabelle
  imports Complex_Main "HOL-Library.Word" "HOL-Library.While_Combinator"
begin

unbundle bit_operations_syntax

section \<open>Python values the engine works on\<close>

text \<open>
  A spriteops document is what \<^verbatim>\<open>json.load\<close> returns: \<^verbatim>\<open>None\<close>, booleans,
  unbounded integers, floats (modelled by reals), strings, lists and dictionaries with
  string keys (association lists; a key is looked up at its first entry).
\<close>

datatype json =
    JNull
  | JBool bool
  | JInt int
  | JFloat real
  | JStr string
  | JArr "json list"
  | JObj "(string \<times> json) list"

text \<open>
  The exceptions of the engine.  The two \<^verbatim>\<open>ValueError\<close>s that render_frame raises
  about layers and the one about an unknown op carry their arguments;
  \<open>Unmodelled\<close> marks the Python behaviour this development leaves out (the \<open>repr\<close> of
  containers and floats, number literals other than plain decimal integers);
  \<open>NoReturn\<close> is the outcome of a call whose loop never ends.
\<close>

datatype py_error =
    IndexError
  | KeyError string
  | TypeError
  | ValueError
  | AttributeError
  | UnknownOp json
  | MissingLayer string string
  | UnsupportedSide string
  | Unmodelled
  | NoReturn

text \<open>
  Buffers are Python lists of unbounded integers (palette indices), modelled as
  \<open>int list\<close>.  An indexed access \<open>xs[i]\<close> raises \<open>IndexError\<close> outside
  \<open>[-len, len)\<close> and counts from the end for a negative index; both are written out.
\<close>

type_synonym 'a result = "py_error + 'a"

definition bindE :: "'a result \<Rightarrow> ('a \<Rightarrow> 'b result) \<Rightarrow> 'b result" where
  "bindE m f = (case m of Inl e \<Rightarrow> Inl e | Inr v \<Rightarrow> f v)"

definition py_index :: "nat \<Rightarrow> int \<Rightarrow> nat option" where
  "py_index n i =
     (if 0 \<le> i \<and> i < int n then Some (nat i)
      else if - int n \<le> i \<and> i < 0 then Some (nat (int n + i))
      else None)"

definition py_get :: "'a list \<Rightarrow> int \<Rightarrow> py_error + 'a" where
  "py_get xs i = (case py_index (length xs) i of None \<Rightarrow> Inl IndexError | Some k \<Rightarrow> Inr (xs ! k))"

definition py_set :: "'a list \<Rightarrow> int \<Rightarrow> 'a \<Rightarrow> py_error + 'a list" where
  "py_set xs i v = (case py_index (length xs) i of None \<Rightarrow> Inl IndexError | Some k \<Rightarrow> Inr (xs[k := v]))"

text \<open>A \<^verbatim>\<open>for\<close> loop whose body may raise: the first exception ends the loop.\<close>

fun foldE :: "('a \<Rightarrow> 's \<Rightarrow> 's result) \<Rightarrow> 'a list \<Rightarrow> 's \<Rightarrow> 's result" where
  "foldE f [] s = Inr s"
| "foldE f (x # xs) s = (case f x s of Inl e \<Rightarrow> Inl e | Inr s' \<Rightarrow> foldE f xs s')"

text \<open>A \<^verbatim>\<open>while\<close> loop whose body may raise and which may run forever.\<close>

definition whileE :: "('s \<Rightarrow> bool) \<Rightarrow> ('s \<Rightarrow> 's result) \<Rightarrow> 's \<Rightarrow> 's result" where
  "whileE b c s =
     (case while_option (\<lambda>r. case r of Inl e \<Rightarrow> False | Inr t \<Rightarrow> b t)
                        (\<lambda>r. case r of Inl e \<Rightarrow> Inl e | Inr t \<Rightarrow> c t) (Inr s) of
        None \<Rightarrow> Inl NoReturn
      | Some r \<Rightarrow> r)"

text \<open>\<^verbatim>\<open>range(a, b)\<close> on unbounded integers.\<close>

definition py_range :: "int \<Rightarrow> int \<Rightarrow> int list" where
  "py_range a b = [a..b - 1]"

text \<open>
  Python floats are modelled by exact real arithmetic: \<^verbatim>\<open>int(f)\<close> truncates towards
  zero, \<^verbatim>\<open>round(f)\<close> rounds to nearest with ties to the even integer.  The rounding
  error of binary64 and its overflow on integers beyond \<open>2\<^sup>1\<^sup>0\<^sup>2\<^sup>4\<close> are outside the model.
\<close>

text \<open>
  The functions of the \<^verbatim>\<open>math\<close> module that the engine calls.  They have no equations
  to compute with: a value that depends on one of them is derived by proof.
\<close>

definition math_sqrt :: "real \<Rightarrow> real" where
  "math_sqrt x = sqrt x"

definition math_cos :: "real \<Rightarrow> real" where
  "math_cos x = cos x"

definition math_sin :: "real \<Rightarrow> real" where
  "math_sin x = sin x"

definition math_radians :: "real \<Rightarrow> real" where
  "math_radians x = x * pi / 180"

declare math_sqrt_def [code del] math_cos_def [code del] math_sin_def [code del]
  math_radians_def [code del]

definition py_trunc :: "real \<Rightarrow> int" where
  "py_trunc r = (if 0 \<le> r then \<lfloor>r\<rfloor> else \<lceil>r\<rceil>)"

definition py_round :: "real \<Rightarrow> int" where
  "py_round r =
     (let f = \<lfloor>r\<rfloor>; d = r - of_int f in
      if d < 1 / 2 then f else if 1 / 2 < d then f + 1 else if even f then f else f + 1)"


subsection \<open>Built-in operations on document values\<close>

text \<open>\<^verbatim>\<open>isinstance(v, int)\<close> holds for booleans too; \<open>int_value\<close> is the integer then.\<close>

fun isinstance_int :: "json \<Rightarrow> bool" where
  "isinstance_int (JInt n) = True"
| "isinstance_int (JBool b) = True"
| "isinstance_int v = False"

fun int_value :: "json \<Rightarrow> int" where
  "int_value (JInt n) = n"
| "int_value (JBool b) = (if b then 1 else 0)"
| "int_value v = 0"

fun isinstance_str :: "json \<Rightarrow> bool" where
  "isinstance_str (JStr s) = True"
| "isinstance_str v = False"

fun isinstance_list :: "json \<Rightarrow> bool" where
  "isinstance_list (JArr xs) = True"
| "isinstance_list v = False"

text \<open>\<^verbatim>\<open>len(v)\<close>\<close>

fun py_len :: "json \<Rightarrow> nat result" where
  "py_len (JStr s) = Inr (length s)"
| "py_len (JArr xs) = Inr (length xs)"
| "py_len (JObj kvs) = Inr (length (remdups (map fst kvs)))"
| "py_len v = Inl TypeError"

text \<open>\<^verbatim>\<open>k in v\<close> for a string \<open>k\<close>: key of a dictionary, element of a list, substring of a string.\<close>

fun str_contains :: "string \<Rightarrow> string \<Rightarrow> bool" where
  "str_contains k [] = (k = [])"
| "str_contains k (c # cs) = (take (length k) (c # cs) = k \<or> str_contains k cs)"

fun py_in :: "string \<Rightarrow> json \<Rightarrow> bool result" where
  "py_in k (JObj kvs) = Inr (k \<in> set (map fst kvs))"
| "py_in k (JArr xs) = Inr (JStr k \<in> set xs)"
| "py_in k (JStr s) = Inr (str_contains k s)"
| "py_in k v = Inl TypeError"

text \<open>\<^verbatim>\<open>v[k]\<close> and \<^verbatim>\<open>v.get(k)\<close> for a string \<open>k\<close>.\<close>

fun py_item :: "json \<Rightarrow> string \<Rightarrow> json result" where
  "py_item (JObj kvs) k = (case map_of kvs k of None \<Rightarrow> Inl (KeyError k) | Some v \<Rightarrow> Inr v)"
| "py_item v k = Inl TypeError"

fun py_dict_get :: "json \<Rightarrow> string \<Rightarrow> json option result" where
  "py_dict_get (JObj kvs) k = Inr (map_of kvs k)"
| "py_dict_get v k = Inl AttributeError"

text \<open>Iteration (\<^verbatim>\<open>for x in v\<close>, \<^verbatim>\<open>list(v)\<close>, \<^verbatim>\<open>xs.extend(v)\<close>).\<close>

fun py_iter :: "json \<Rightarrow> json list result" where
  "py_iter (JArr xs) = Inr xs"
| "py_iter (JStr s) = Inr (map (\<lambda>c. JStr [c]) s)"
| "py_iter (JObj kvs) = Inr (map JStr (remdups (map fst kvs)))"
| "py_iter v = Inl TypeError"

text \<open>
  \<^verbatim>\<open>int(s)\<close> on a string: an optional sign and decimal digits give the number; an empty
  string or one with an ASCII letter is a \<^verbatim>\<open>ValueError\<close>; the other strings (blanks,
  underscores, other scripts' digits) are left out of the model.
\<close>

definition is_digit :: "char \<Rightarrow> bool" where
  "is_digit c \<longleftrightarrow> 48 \<le> (of_char c :: nat) \<and> (of_char c :: nat) \<le> 57"

definition is_letter :: "char \<Rightarrow> bool" where
  "is_letter c \<longleftrightarrow> (65 \<le> (of_char c :: nat) \<and> (of_char c :: nat) \<le> 90)
                 \<or> (97 \<le> (of_char c :: nat) \<and> (of_char c :: nat) \<le> 122)"

definition digits_value :: "string \<Rightarrow> nat" where
  "digits_value s = foldl (\<lambda>n c. 10 * n + (of_char c - 48)) 0 s"

definition int_of_string :: "string \<Rightarrow> int option" where
  "int_of_string s =
     (let (neg, ds) = (case s of
                         c # cs \<Rightarrow> if c = CHR ''-'' then (True, cs)
                                   else if c = CHR ''+'' then (False, cs) else (False, s)
                       | [] \<Rightarrow> (False, s))
      in if ds \<noteq> [] \<and> list_all is_digit ds
         then Some (if neg then - int (digits_value ds) else int (digits_value ds))
         else None)"

definition parse_int :: "string \<Rightarrow> int result" where
  "parse_int s =
     (case int_of_string s of
        Some n \<Rightarrow> Inr n
      | None \<Rightarrow> if s = [] \<or> list_ex is_letter s then Inl ValueError else Inl Unmodelled)"

fun py_int :: "json \<Rightarrow> int result" where
  "py_int (JInt n) = Inr n"
| "py_int (JBool b) = Inr (if b then 1 else 0)"
| "py_int (JFloat r) = Inr (py_trunc r)"
| "py_int (JStr s) = parse_int s"
| "py_int v = Inl TypeError"

fun py_float :: "json \<Rightarrow> real result" where
  "py_float (JInt n) = Inr (real_of_int n)"
| "py_float (JBool b) = Inr (if b then 1 else 0)"
| "py_float (JFloat r) = Inr r"
| "py_float (JStr s) =
     (case int_of_string s of
        Some n \<Rightarrow> Inr (real_of_int n)
      | None \<Rightarrow> if s = [] then Inl ValueError else Inl Unmodelled)"
| "py_float v = Inl TypeError"

text \<open>\<^verbatim>\<open>str(v)\<close>: the decimal numeral of an integer; the \<open>repr\<close> of floats and containers is left out.\<close>

fun digits_of :: "nat \<Rightarrow> string" where
  "digits_of n =
     (if n < 10 then [char_of (48 + n)] else digits_of (n div 10) @ [char_of (48 + n mod 10)])"

definition str_of_int :: "int \<Rightarrow> string" where
  "str_of_int n = (if n < 0 then CHR ''-'' # digits_of (nat (- n)) else digits_of (nat n))"

fun py_str :: "json \<Rightarrow> string result" where
  "py_str (JStr s) = Inr s"
| "py_str (JInt n) = Inr (str_of_int n)"
| "py_str (JBool b) = Inr (if b then ''True'' else ''False'')"
| "py_str JNull = Inr ''None''"
| "py_str v = Inl Unmodelled"

text \<open>\<^verbatim>\<open>a, b, c = map(int, xs)\<close>: the conversions run in order, then the count is checked.\<close>

fun ints_of :: "json list \<Rightarrow> int list result" where
  "ints_of [] = Inr []"
| "ints_of (v # vs) = bindE (py_int v) (\<lambda>n. bindE (ints_of vs) (\<lambda>ns. Inr (n # ns)))"

definition unpack_ints :: "nat \<Rightarrow> json list \<Rightarrow> int list result" where
  "unpack_ints n vs = bindE (ints_of vs) (\<lambda>ns. if length ns = n then Inr ns else Inl ValueError)"

text \<open>\<^verbatim>\<open>xs[a:b]\<close> for \<open>0 \<le> a \<le> b\<close>.\<close>

definition py_slice :: "'a list \<Rightarrow> nat \<Rightarrow> nat \<Rightarrow> 'a list" where
  "py_slice xs a b = take (b - a) (drop a xs)"

text \<open>\<^verbatim>\<open>s.split(",")\<close>\<close>

fun split_on :: "char \<Rightarrow> string \<Rightarrow> string list" where
  "split_on d [] = [[]]"
| "split_on d (c # cs) =
     (if c = d then [] # split_on d cs
      else (case split_on d cs of p # ps \<Rightarrow> (c # p) # ps | [] \<Rightarrow> [[c]]))"

text \<open>\<^verbatim>\<open>s.lower()\<close> on ASCII letters.\<close>

definition lower_char :: "char \<Rightarrow> char" where
  "lower_char c = (if 65 \<le> (of_char c :: nat) \<and> (of_char c :: nat) \<le> 90
                   then char_of ((of_char c :: nat) + 32) else c)"

section \<open>raster.py\<close>

text \<open>
  The primitives mutate a flat buffer in place.  The model passes the buffer through and
  keeps, next to the pixels, the list of the indices stored to, in the order of the
  stores: \<open>put i v\<close> is the statement \<^verbatim>\<open>buf[i] = v\<close>.
\<close>

record canvas =
  pixels :: "int list"
  writes :: "int list"

definition put :: "int \<Rightarrow> int \<Rightarrow> canvas \<Rightarrow> canvas result" where
  "put i v cv = bindE (py_set (pixels cv) i v) (\<lambda>p. Inr \<lparr>pixels = p, writes = writes cv @ [i]\<rparr>)"

definition in_bounds :: "int \<Rightarrow> int \<Rightarrow> int \<Rightarrow> int \<Rightarrow> bool" where
  "in_bounds x y w h \<longleftrightarrow> 0 \<le> x \<and> x < w \<and> 0 \<le> y \<and> y < h"

subsection \<open>draw_line\<close>

text \<open>
  The state of the \<^verbatim>\<open>while True\<close> loop is \<open>(x, y, err, buf, go)\<close>; \<open>go\<close> turns false
  at the \<^verbatim>\<open>break\<close>.
\<close>

definition line_step ::
  "int \<Rightarrow> int \<Rightarrow> int \<Rightarrow> int \<Rightarrow> int \<Rightarrow> int \<Rightarrow> int \<Rightarrow> int \<Rightarrow> int \<Rightarrow>
   int \<times> int \<times> int \<times> canvas \<times> bool \<Rightarrow> (int \<times> int \<times> int \<times> canvas \<times> bool) result" where
  "line_step w h color x1 y1 dx dy sx sy = (\<lambda>(x, y, err, buf, go).
     bindE (if in_bounds x y w h then put (y * w + x) color buf else Inr buf) (\<lambda>buf.
       if x = x1 \<and> y = y1 then Inr (x, y, err, buf, False)
       else
         let e2 = 2 * err;
             (err, x) = (if e2 \<ge> dy then (err + dy, x + sx) else (err, x));
             (err, y) = (if e2 \<le> dx then (err + dx, y + sy) else (err, y))
         in Inr (x, y, err, buf, True)))"

definition draw_line ::
  "canvas \<Rightarrow> int \<Rightarrow> int \<Rightarrow> int \<Rightarrow> int \<Rightarrow> int \<Rightarrow> int \<Rightarrow> int \<Rightarrow> canvas result" where
  "draw_line buf w h color x0 y0 x1 y1 =
     (let dx = \<bar>x1 - x0\<bar>;
          dy = - \<bar>y1 - y0\<bar>;
          sx = (if x0 < x1 then 1 else - 1);
          sy = (if y0 < y1 then 1 else - 1);
          err = dx + dy
      in bindE (whileE (\<lambda>(x, y, err, buf, go). go) (line_step w h color x1 y1 dx dy sx sy)
                  (x0, y0, err, buf, True))
           (\<lambda>(x, y, err, buf, go). Inr buf))"

subsection \<open>rect_stroke, rect_fill\<close>

definition rect_stroke ::
  "canvas \<Rightarrow> int \<Rightarrow> int \<Rightarrow> int \<Rightarrow> int \<Rightarrow> int \<Rightarrow> int \<Rightarrow> int \<Rightarrow> canvas result" where
  "rect_stroke buf w h color x y rw rh =
     bindE
       (foldE (\<lambda>i cv.
          bindE (if in_bounds (x + i) y w h then put (y * w + (x + i)) color cv else Inr cv) (\<lambda>cv.
            if in_bounds (x + i) (y + rh - 1) w h
            then put ((y + rh - 1) * w + (x + i)) color cv else Inr cv))
        (py_range 0 rw) buf)
       (foldE (\<lambda>j cv.
          bindE (if in_bounds x (y + j) w h then put ((y + j) * w + x) color cv else Inr cv) (\<lambda>cv.
            if in_bounds (x + rw - 1) (y + j) w h
            then put ((y + j) * w + (x + rw - 1)) color cv else Inr cv))
        (py_range 0 rh))"

definition rect_fill ::
  "canvas \<Rightarrow> int \<Rightarrow> int \<Rightarrow> int \<Rightarrow> int \<Rightarrow> int \<Rightarrow> int \<Rightarrow> int \<Rightarrow> canvas result" where
  "rect_fill buf w h color x y rw rh =
     foldE (\<lambda>yy cv.
        if 0 \<le> yy \<and> yy < h then
          let row = yy * w in
          foldE (\<lambda>xx cv. if 0 \<le> xx \<and> xx < w then put (row + xx) color cv else Inr cv)
            (py_range x (x + rw)) cv
        else Inr cv)
      (py_range y (y + rh)) buf"

subsection \<open>ellipse_fill, ellipse_stroke\<close>

definition ellipse_fill ::
  "canvas \<Rightarrow> int \<Rightarrow> int \<Rightarrow> int \<Rightarrow> int \<Rightarrow> int \<Rightarrow> int \<Rightarrow> int \<Rightarrow> canvas result" where
  "ellipse_fill buf w h color cx cy rx ry =
     (if rx \<le> 0 \<or> ry \<le> 0 then
        (if rx = 0 \<and> ry = 0 then
           (if in_bounds cx cy w h then put (cy * w + cx) color buf else Inr buf)
         else Inr buf)
      else
        foldE (\<lambda>yy cv.
           if \<not> (0 \<le> yy \<and> yy < h) then Inr cv
           else
             let dy = real_of_int (yy - cy) / real_of_int ry;
                 inside = 1 - dy * dy
             in if inside < 0 then Inr cv
                else
                  let span = \<lfloor>real_of_int rx * math_sqrt inside\<rfloor>;
                      x0 = cx - span;
                      x1 = cx + span;
                      row = yy * w
                  in foldE (\<lambda>xx cv. if 0 \<le> xx \<and> xx < w then put (row + xx) color cv else Inr cv)
                       (py_range x0 (x1 + 1)) cv)
         (py_range (cy - ry) (cy + ry + 1)) buf)"

text \<open>The inner function \<^verbatim>\<open>plot\<close> of ellipse_stroke: the four mirror images.\<close>

definition plot4 ::
  "int \<Rightarrow> int \<Rightarrow> int \<Rightarrow> int \<Rightarrow> int \<Rightarrow> int \<Rightarrow> int \<Rightarrow> canvas \<Rightarrow> canvas result" where
  "plot4 w h color cx cy px py buf =
     foldE (\<lambda>(sx, sy) cv. if in_bounds sx sy w h then put (sy * w + sx) color cv else Inr cv)
       [(cx + px, cy + py), (cx - px, cy + py), (cx + px, cy - py), (cx - px, cy - py)] buf"

text \<open>The two loops of the midpoint algorithm, on the state \<open>(x, y, px, py, p, buf)\<close>.\<close>

definition region1_step ::
  "int \<Rightarrow> int \<Rightarrow> int \<Rightarrow> int \<Rightarrow> int \<Rightarrow> int \<Rightarrow> int \<Rightarrow> int \<Rightarrow>
   int \<times> int \<times> int \<times> int \<times> int \<times> canvas \<Rightarrow> (int \<times> int \<times> int \<times> int \<times> int \<times> canvas) result" where
  "region1_step w h color cx cy ry2 two_rx2 two_ry2 = (\<lambda>(x, y, px, py, p, buf).
     let x = x + 1;
         px = px + two_ry2;
         (y, py, p) = (if p < 0 then (y, py, p + (ry2 + px))
                       else (y - 1, py - two_rx2, p + (ry2 + px - (py - two_rx2))))
     in bindE (plot4 w h color cx cy x y buf) (\<lambda>buf. Inr (x, y, px, py, p, buf)))"

definition region2_step ::
  "int \<Rightarrow> int \<Rightarrow> int \<Rightarrow> int \<Rightarrow> int \<Rightarrow> int \<Rightarrow> int \<Rightarrow> int \<Rightarrow>
   int \<times> int \<times> int \<times> int \<times> int \<times> canvas \<Rightarrow> (int \<times> int \<times> int \<times> int \<times> int \<times> canvas) result" where
  "region2_step w h color cx cy rx2 two_rx2 two_ry2 = (\<lambda>(x, y, px, py, p, buf).
     let y = y - 1;
         py = py - two_rx2;
         (x, px, p) = (if p > 0 then (x, px, p + (rx2 - py))
                       else (x + 1, px + two_ry2, p + (rx2 - py + (px + two_ry2))))
     in bindE (plot4 w h color cx cy x y buf) (\<lambda>buf. Inr (x, y, px, py, p, buf)))"

definition ellipse_stroke ::
  "canvas \<Rightarrow> int \<Rightarrow> int \<Rightarrow> int \<Rightarrow> int \<Rightarrow> int \<Rightarrow> int \<Rightarrow> int \<Rightarrow> canvas result" where
  "ellipse_stroke buf w h color cx cy rx ry =
     (if rx \<le> 0 \<or> ry \<le> 0 then Inr buf
      else
        let rx2 = rx * rx; ry2 = ry * ry; two_rx2 = 2 * rx2; two_ry2 = 2 * ry2 in
        bindE (plot4 w h color cx cy 0 ry buf) (\<lambda>buf.
        let p = py_round (real_of_int ry2 - real_of_int (rx2 * ry) + 0.25 * real_of_int rx2) in
        bindE (whileE (\<lambda>(x, y, px, py, p, buf). px < py)
                 (region1_step w h color cx cy ry2 two_rx2 two_ry2)
                 (0, ry, 0, two_rx2 * ry, p, buf)) (\<lambda>(x, y, px, py, p, buf).
        let p = py_round (real_of_int ry2 * (real_of_int x + 0.5) * (real_of_int x + 0.5)
                          + real_of_int (rx2 * (y - 1) * (y - 1)) - real_of_int (rx2 * ry2)) in
        bindE (whileE (\<lambda>(x, y, px, py, p, buf). y > 0)
                 (region2_step w h color cx cy rx2 two_rx2 two_ry2)
                 (x, y, px, py, p, buf)) (\<lambda>(x, y, px, py, p, buf). Inr buf))))"

subsection \<open>draw_thick_line, capsule_fill\<close>

text \<open>
  For a thickness above 1 the function is a sequence of calls of ellipse_fill.
  \<open>thick_line_stamps\<close> lists their arguments \<open>(cx, cy, rx, ry)\<close> in call order, as the
  body computes them; draw_thick_line performs the calls.
\<close>

definition thick_line_stamps ::
  "int \<Rightarrow> int \<Rightarrow> int \<Rightarrow> int \<Rightarrow> int \<Rightarrow> (int \<times> int \<times> int \<times> int) list" where
  "thick_line_stamps x0 y0 x1 y1 thickness =
     (let dx = x1 - x0;
          dy = y1 - y0;
          ds = math_sqrt (real_of_int (dx * dx + dy * dy))
      in if ds = 0 then [(x0, y0, thickness div 2, thickness div 2)]
         else
           let steps = py_trunc (ds * 2) in
           map (\<lambda>i.
                  let t = real_of_int i / real_of_int steps;
                      tx = real_of_int x0 + t * real_of_int dx;
                      ty = real_of_int y0 + t * real_of_int dy
                  in (py_round tx, py_round ty, thickness div 2, thickness div 2))
               (py_range 0 (steps + 1)))"

definition draw_thick_line ::
  "canvas \<Rightarrow> int \<Rightarrow> int \<Rightarrow> int \<Rightarrow> int \<Rightarrow> int \<Rightarrow> int \<Rightarrow> int \<Rightarrow> int \<Rightarrow> canvas result" where
  "draw_thick_line buf w h color x0 y0 x1 y1 thickness =
     (if thickness \<le> 1 then draw_line buf w h color x0 y0 x1 y1
      else
        foldE (\<lambda>(cx, cy, rx, ry) cv. ellipse_fill cv w h color cx cy rx ry)
          (thick_line_stamps x0 y0 x1 y1 thickness) buf)"

definition capsule_fill ::
  "canvas \<Rightarrow> int \<Rightarrow> int \<Rightarrow> int \<Rightarrow> int \<Rightarrow> int \<Rightarrow> int \<Rightarrow> int \<Rightarrow> int \<Rightarrow> canvas result" where
  "capsule_fill buf w h color x0 y0 x1 y1 r = draw_thick_line buf w h color x0 y0 x1 y1 (r * 2)"

subsection \<open>gradient_radial, gradient_linear\<close>

definition gradient_radial ::
  "canvas \<Rightarrow> int \<Rightarrow> int \<Rightarrow> int list \<Rightarrow> int \<Rightarrow> int \<Rightarrow> int \<Rightarrow> canvas result" where
  "gradient_radial buf w h palette_indices cx cy r =
     (if palette_indices = [] \<or> r \<le> 0 then Inr buf
      else
        foldE (\<lambda>yy. foldE (\<lambda>xx cv.
            if in_bounds xx yy w h then
              let ds = math_sqrt (real_of_int ((xx - cx) ^ 2 + (yy - cy) ^ 2)) in
              if ds \<le> real_of_int r then
                let t = ds / real_of_int r;
                    idx = py_trunc (t * real_of_int (int (length palette_indices) - 1))
                in bindE (py_get palette_indices idx) (\<lambda>c. put (yy * w + xx) c cv)
              else Inr cv
            else Inr cv)
          (py_range (cx - r) (cx + r + 1))) (py_range (cy - r) (cy + r + 1)) buf)"

definition gradient_linear ::
  "canvas \<Rightarrow> int \<Rightarrow> int \<Rightarrow> int list \<Rightarrow> int \<Rightarrow> int \<Rightarrow> int \<Rightarrow> int \<Rightarrow> canvas result" where
  "gradient_linear buf w h palette_indices x0 y0 x1 y1 =
     (if palette_indices = [] then Inr buf
      else
        let dx = x1 - x0; dy = y1 - y0; len_sq = dx * dx + dy * dy in
        if len_sq = 0 then Inr buf
        else
          foldE (\<lambda>y. foldE (\<lambda>x cv.
              let t = real_of_int ((x - x0) * dx + (y - y0) * dy) / real_of_int len_sq;
                  t = max 0 (min 1 t);
                  idx = py_trunc (t * real_of_int (int (length palette_indices) - 1))
              in bindE (py_get palette_indices idx) (\<lambda>c. put (y * w + x) c cv))
            (py_range 0 w)) (py_range 0 h) buf)"

subsection \<open>color_replace, mask_layer_fn\<close>

text \<open>
  \<^verbatim>\<open>if mask_layer and mask_layer[i] == 0: continue\<close>: a missing or empty mask is
  falsy.  When the mask is the buffer itself, the read of \<open>mask_layer[i]\<close> precedes the
  only store to index \<open>i\<close>, so the mask as it was at the call gives the same run.
\<close>

definition color_replace ::
  "canvas \<Rightarrow> int \<Rightarrow> int \<Rightarrow> int \<Rightarrow> int \<Rightarrow> int list option \<Rightarrow> canvas result" where
  "color_replace buf w h old_c new_c mask_layer =
     foldE (\<lambda>i cv.
        bindE (case mask_layer of
                 None \<Rightarrow> Inr False
               | Some m \<Rightarrow> if m = [] then Inr False else bindE (py_get m i) (\<lambda>v. Inr (v = 0)))
          (\<lambda>skip.
             if skip then Inr cv
             else bindE (py_get (pixels cv) i) (\<lambda>v. if v = old_c then put i new_c cv else Inr cv)))
       (py_range 0 (w * h)) buf"

definition mask_layer_fn :: "canvas \<Rightarrow> int list \<Rightarrow> canvas result" where
  "mask_layer_fn buf msk =
     foldE (\<lambda>i cv. bindE (py_get msk i) (\<lambda>v. if v = 0 then put i 0 cv else Inr cv))
       (py_range 0 (int (length (pixels buf)))) buf"

subsection \<open>outline_layer\<close>

text \<open>
  \<open>touching\<close> is the loop over the four neighbours with its \<^verbatim>\<open>break\<close>; \<open>outline_add\<close>
  is the double loop that collects the list \<^verbatim>\<open>add\<close> of one pass.
\<close>

fun touching :: "int list \<Rightarrow> int \<Rightarrow> int \<Rightarrow> int \<Rightarrow> int \<Rightarrow> (int \<times> int) list \<Rightarrow> bool result" where
  "touching work w h x y [] = Inr False"
| "touching work w h x y ((dx, dy) # ds) =
     (let nx = x + dx; ny = y + dy in
      if 0 \<le> nx \<and> nx < w \<and> 0 \<le> ny \<and> ny < h then
        bindE (py_get work (ny * w + nx)) (\<lambda>v.
          if v \<noteq> 0 then Inr True else touching work w h x y ds)
      else touching work w h x y ds)"

definition outline_add :: "int list \<Rightarrow> int \<Rightarrow> int \<Rightarrow> int list result" where
  "outline_add work w h =
     foldE (\<lambda>y. foldE (\<lambda>x add.
         let idx = y * w + x in
         bindE (py_get work idx) (\<lambda>v.
           if v \<noteq> 0 then Inr add
           else bindE (touching work w h x y [(1, 0), (- 1, 0), (0, 1), (0, - 1)]) (\<lambda>touch.
             if touch then Inr (add @ [idx]) else Inr add)))
       (py_range 0 w)) (py_range 0 h) []"

definition outline_layer :: "canvas \<Rightarrow> int \<Rightarrow> int \<Rightarrow> int \<Rightarrow> int \<Rightarrow> canvas result" where
  "outline_layer buf w h thickness color =
     (let msk = map (\<lambda>v. if v \<noteq> 0 then 1 else 0) (pixels buf) in
      bindE
        (foldE (\<lambda>pass (cv, work).
            bindE (outline_add work w h) (\<lambda>add.
              foldE (\<lambda>idx (cv, work).
                  bindE (put idx color cv) (\<lambda>cv.
                  bindE (py_set work idx 1) (\<lambda>work. Inr (cv, work))))
                add (cv, work)))
          (py_range 0 thickness) (buf, msk))
        (\<lambda>(cv, work). Inr cv))"

subsection \<open>draw_bezier, dither_rect\<close>

definition draw_bezier ::
  "canvas \<Rightarrow> int \<Rightarrow> int \<Rightarrow> int \<Rightarrow> int \<Rightarrow> int \<Rightarrow> int \<Rightarrow> int \<Rightarrow> int \<Rightarrow> int \<Rightarrow> canvas result" where
  "draw_bezier buf w h color x0 y0 cx cy x1 y1 =
     (let steps = max (max (max (max \<bar>x0 - x1\<bar> \<bar>y0 - y1\<bar>) \<bar>x0 - cx\<bar>) \<bar>y0 - cy\<bar>) 10 * 2 in
      foldE (\<lambda>i cv.
         let t = real_of_int i / real_of_int steps;
             tx = (1 - t) ^ 2 * real_of_int x0 + 2 * (1 - t) * t * real_of_int cx + t ^ 2 * real_of_int x1;
             ty = (1 - t) ^ 2 * real_of_int y0 + 2 * (1 - t) * t * real_of_int cy + t ^ 2 * real_of_int y1;
             ix = py_round tx;
             iy = py_round ty
         in if in_bounds ix iy w h then put (iy * w + ix) color cv else Inr cv)
       (py_range 0 (steps + 1)) buf)"

definition dither_rect ::
  "canvas \<Rightarrow> int \<Rightarrow> int \<Rightarrow> int \<Rightarrow> int \<Rightarrow> int \<Rightarrow> int \<Rightarrow> int \<Rightarrow> string \<Rightarrow> canvas result" where
  "dither_rect buf w h color x y rw rh pattern =
     foldE (\<lambda>yy cv.
        if 0 \<le> yy \<and> yy < h then
          let row = yy * w in
          foldE (\<lambda>xx cv.
              if 0 \<le> xx \<and> xx < w then
                (if pattern = ''checker'' then
                   (if (xx + yy) mod 2 = 0 then put (row + xx) color cv else Inr cv)
                 else if pattern = ''dots'' then
                   (if xx mod 2 = 0 \<and> yy mod 2 = 0 then put (row + xx) color cv else Inr cv)
                 else Inr cv)
              else Inr cv)
            (py_range x (x + rw)) cv
        else Inr cv)
      (py_range y (y + rh)) buf"

subsection \<open>draw_poly\<close>

text \<open>
  \<open>poly_nodes y pj ps\<close> is the loop over \<open>i\<close> that collects the crossings of scanline
  \<open>y\<close>: \<open>pj\<close> is \<open>points[j]\<close>, the point before the head of \<open>ps\<close> (at first the last
  point).  \<open>node_pairs\<close> is the loop \<^verbatim>\<open>for i in range(0, len(nodes), 2)\<close> with its
  \<^verbatim>\<open>break\<close> on an unpaired last node.
\<close>

fun poly_nodes :: "int \<Rightarrow> real \<times> real \<Rightarrow> (real \<times> real) list \<Rightarrow> real list" where
  "poly_nodes y pj [] = []"
| "poly_nodes y pj (p # ps) =
     (if (snd p < real_of_int y \<and> real_of_int y \<le> snd pj) \<or> (snd pj < real_of_int y \<and> real_of_int y \<le> snd p)
      then (if snd pj \<noteq> snd p
            then [fst p + (real_of_int y - snd p) / (snd pj - snd p) * (fst pj - fst p)]
            else [])
      else []) @ poly_nodes y p ps"

fun node_pairs :: "real list \<Rightarrow> (real \<times> real) list" where
  "node_pairs (a # b # ns) = (a, b) # node_pairs ns"
| "node_pairs ns = []"

definition draw_poly :: "canvas \<Rightarrow> int \<Rightarrow> int \<Rightarrow> int \<Rightarrow> (real \<times> real) list \<Rightarrow> canvas result" where
  "draw_poly buf w h color points =
     (if points = [] then Inr buf
      else
        let min_y = py_trunc (fold min (map snd (tl points)) (snd (hd points)));
            max_y = py_trunc (fold max (map snd (tl points)) (snd (hd points)))
        in foldE (\<lambda>y cv.
              if \<not> (0 \<le> y \<and> y < h) then Inr cv
              else
                let nodes = sort (poly_nodes y (last points) points) in
                foldE (\<lambda>(a, b) cv.
                    let x0 = \<lceil>a\<rceil>; x1 = \<lfloor>b\<rfloor> in
                    foldE (\<lambda>x cv. if 0 \<le> x \<and> x < w then put (y * w + x) color cv else Inr cv)
                      (py_range x0 (x1 + 1)) cv)
                  (node_pairs nodes) cv)
            (py_range min_y (max_y + 1)) buf)"

subsection \<open>flood_fill\<close>

text \<open>The state of the \<^verbatim>\<open>while q\<close> loop is the queue and the buffer.\<close>

definition flood_step ::
  "int \<Rightarrow> int \<Rightarrow> int \<Rightarrow> int \<Rightarrow> (int \<times> int) list \<times> canvas \<Rightarrow> ((int \<times> int) list \<times> canvas) result" where
  "flood_step w h color target = (\<lambda>(q, buf).
     case q of
       [] \<Rightarrow> Inr (q, buf)
     | (x, y) # q \<Rightarrow>
         if \<not> in_bounds x y w h then Inr (q, buf)
         else
           let idx = y * w + x in
           bindE (py_get (pixels buf) idx) (\<lambda>v.
             if v \<noteq> target then Inr (q, buf)
             else bindE (put idx color buf) (\<lambda>buf.
               Inr (q @ [(x + 1, y), (x - 1, y), (x, y + 1), (x, y - 1)], buf))))"

definition flood_fill :: "canvas \<Rightarrow> int \<Rightarrow> int \<Rightarrow> int \<Rightarrow> int \<Rightarrow> int \<Rightarrow> canvas result" where
  "flood_fill buf w h color sx sy =
     (if \<not> in_bounds sx sy w h then Inr buf
      else
        bindE (py_get (pixels buf) (sy * w + sx)) (\<lambda>target.
          if target = color then Inr buf
          else
            bindE (whileE (\<lambda>(q, buf). q \<noteq> []) (flood_step w h color target) ([(sx, sy)], buf))
              (\<lambda>(q, buf). Inr buf)))"

section \<open>layers.py\<close>

text \<open>
  The layer helpers work on the buffers of the layer dictionary, plain lists here.
  \<^verbatim>\<open>[0] * (w * h)\<close> is empty when the product is not positive.
\<close>

definition zeros :: "int \<Rightarrow> int \<Rightarrow> int list" where
  "zeros w h = replicate (nat (w * h)) 0"

subsection \<open>merge_layers, ensure_layer\<close>

definition merge_layers ::
  "(string \<rightharpoonup> int list) \<Rightarrow> string list \<Rightarrow> int \<Rightarrow> int \<Rightarrow> int list result" where
  "merge_layers layers layer_order w h =
     foldE (\<lambda>lname out.
        case layers lname of
          None \<Rightarrow> Inr out
        | Some src \<Rightarrow>
            foldE (\<lambda>(i, v) out. if v \<noteq> 0 then py_set out (int i) v else Inr out)
              (enumerate 0 src) out)
      layer_order (zeros w h)"

text \<open>ensure_layer returns the buffer; the model returns the updated dictionary and order too.\<close>

definition ensure_layer ::
  "(string \<rightharpoonup> int list) \<Rightarrow> string list \<Rightarrow> string \<Rightarrow> int \<Rightarrow> int \<Rightarrow>
   (string \<rightharpoonup> int list) \<times> string list \<times> int list" where
  "ensure_layer layers layer_order name w h =
     (case layers name of
        None \<Rightarrow> (layers(name \<mapsto> zeros w h), layer_order @ [name], zeros w h)
      | Some buf \<Rightarrow> (layers, layer_order, buf))"

subsection \<open>inset_fill_on_mask, outline_from_mask\<close>

definition inset_fill_on_mask ::
  "int list \<Rightarrow> int list \<Rightarrow> int \<Rightarrow> int \<Rightarrow> int \<Rightarrow> int \<Rightarrow> int \<Rightarrow> int \<Rightarrow> int \<Rightarrow> int \<Rightarrow> int list result" where
  "inset_fill_on_mask dest msk w h color x y rw rh inset =
     (let x0 = x + inset; y0 = y + inset; x1 = x + rw - inset - 1; y1 = y + rh - inset - 1 in
      foldE (\<lambda>yy dest.
         if 0 \<le> yy \<and> yy < h then
           let row = yy * w in
           foldE (\<lambda>xx dest.
               if 0 \<le> xx \<and> xx < w then
                 let idx = row + xx in
                 bindE (py_get msk idx) (\<lambda>v. if v \<noteq> 0 then py_set dest idx color else Inr dest)
               else Inr dest)
             (py_range x0 (x1 + 1)) dest
         else Inr dest)
       (py_range y0 (y1 + 1)) dest)"

definition outline_from_mask ::
  "int list \<Rightarrow> int list \<Rightarrow> int \<Rightarrow> int \<Rightarrow> int \<Rightarrow> int \<Rightarrow> int list result" where
  "outline_from_mask dest msk w h outline_color thickness =
     bindE
       (foldE (\<lambda>pass (dest, work).
           bindE (outline_add work w h) (\<lambda>add.
             foldE (\<lambda>idx (dest, work).
                 bindE (py_set dest idx outline_color) (\<lambda>dest.
                 bindE (py_set work idx 1) (\<lambda>work. Inr (dest, work))))
               add (dest, work)))
         (py_range 0 thickness) (dest, msk))
       (\<lambda>(dest, work). Inr dest)"

subsection \<open>shade_band\<close>

text \<open>
  render_frame passes the layer named in the op as mask; when that layer is the current
  one, \<open>dest\<close> and \<open>mask\<close> are the same list and every store is seen by the later reads
  of the mask.  The flag \<open>same\<close> says so, and \<open>shade_put\<close> is the store
  \<^verbatim>\<open>dest[idx] = shade_color\<close> on the pair of buffers.  The loops over \<open>t\<close> and over
  the four neighbours end at their \<^verbatim>\<open>break\<close>.
\<close>

definition shade_put :: "bool \<Rightarrow> int \<Rightarrow> int \<Rightarrow> int list \<times> int list \<Rightarrow> (int list \<times> int list) result" where
  "shade_put same idx c = (\<lambda>(dest, msk).
     bindE (py_set dest idx c) (\<lambda>dest. Inr (dest, if same then dest else msk)))"

fun near_right :: "int list \<Rightarrow> int \<Rightarrow> int \<Rightarrow> int \<Rightarrow> int list \<Rightarrow> bool result" where
  "near_right msk w x y [] = Inr False"
| "near_right msk w x y (t # ts) =
     (let nx = x + t in
      if nx \<ge> w then Inr True
      else bindE (py_get msk (y * w + nx)) (\<lambda>v. if v = 0 then Inr True else near_right msk w x y ts))"

fun near_bottom :: "int list \<Rightarrow> int \<Rightarrow> int \<Rightarrow> int \<Rightarrow> int \<Rightarrow> int list \<Rightarrow> bool result" where
  "near_bottom msk w h x y [] = Inr False"
| "near_bottom msk w h x y (t # ts) =
     (let ny = y + t in
      if ny \<ge> h then Inr True
      else bindE (py_get msk (ny * w + x)) (\<lambda>v. if v = 0 then Inr True else near_bottom msk w h x y ts))"

fun near_top_left :: "int list \<Rightarrow> int \<Rightarrow> int \<Rightarrow> int \<Rightarrow> int list \<Rightarrow> bool result" where
  "near_top_left msk w x y [] = Inr False"
| "near_top_left msk w x y (t # ts) =
     (if y - t < 0 then Inr True
      else bindE (py_get msk ((y - t) * w + x)) (\<lambda>v.
        if v = 0 then Inr True
        else if x - t < 0 then Inr True
        else bindE (py_get msk (y * w + (x - t))) (\<lambda>v.
          if v = 0 then Inr True else near_top_left msk w x y ts)))"

fun on_boundary :: "int list \<Rightarrow> int \<Rightarrow> int \<Rightarrow> int \<Rightarrow> int \<Rightarrow> (int \<times> int) list \<Rightarrow> bool result" where
  "on_boundary msk w h x y [] = Inr False"
| "on_boundary msk w h x y ((dx, dy) # ds) =
     (let nx = x + dx; ny = y + dy in
      if \<not> (0 \<le> nx \<and> nx < w \<and> 0 \<le> ny \<and> ny < h) then Inr True
      else bindE (py_get msk (ny * w + nx)) (\<lambda>v.
        if v = 0 then Inr True else on_boundary msk w h x y ds))"

definition shade_band ::
  "bool \<Rightarrow> int list \<Rightarrow> int list \<Rightarrow> int \<Rightarrow> int \<Rightarrow> int \<Rightarrow> string \<Rightarrow> int \<Rightarrow> int list result" where
  "shade_band same dest msk w h shade_color side thickness =
     (let side = map lower_char side in
      bindE
        (foldE (\<lambda>y. foldE (\<lambda>x (dest, msk).
            let idx = y * w + x in
            bindE (py_get msk idx) (\<lambda>v.
              if v = 0 then Inr (dest, msk)
              else if side = ''right'' then
                bindE (near_right msk w x y (py_range 1 (thickness + 1))) (\<lambda>near.
                  if near then shade_put same idx shade_color (dest, msk) else Inr (dest, msk))
              else if side = ''bottom'' then
                bindE (near_bottom msk w h x y (py_range 1 (thickness + 1))) (\<lambda>near.
                  if near then shade_put same idx shade_color (dest, msk) else Inr (dest, msk))
              else if side = ''top_left'' then
                bindE (near_top_left msk w x y (py_range 1 (thickness + 1))) (\<lambda>near.
                  if near then shade_put same idx shade_color (dest, msk) else Inr (dest, msk))
              else if side = ''edge'' then
                bindE (on_boundary msk w h x y [(1, 0), (- 1, 0), (0, 1), (0, - 1)]) (\<lambda>boundary.
                  if boundary then shade_put same idx shade_color (dest, msk) else Inr (dest, msk))
              else Inl (UnsupportedSide side)))
          (py_range 0 w)) (py_range 0 h) (dest, msk))
        (\<lambda>(dest, msk). Inr dest))"

subsection \<open>noise_points\<close>

text \<open>
  \<^verbatim>\<open>eligible = [i for i, v in enumerate(mask) if v != 0]\<close>
\<close>

definition eligible :: "int list \<Rightarrow> int list" where
  "eligible msk = map (\<lambda>(i, v). int i) (filter (\<lambda>(i, v). v \<noteq> 0) (enumerate 0 msk))"

text \<open>One turn of the generator: \<^verbatim>\<open>x = (1103515245 * x + 12345) & 0x7FFFFFFF\<close>.\<close>

definition lcg_next :: "int \<Rightarrow> int" where
  "lcg_next x = (1103515245 * x + 12345) AND 0x7FFFFFFF"

text \<open>
  The body of \<^verbatim>\<open>for _ in range(count)\<close>: the first argument counts the iterations
  still to run, \<open>x\<close> is the generator state carried from one iteration to the next.
\<close>

fun noise_loop :: "nat \<Rightarrow> int \<Rightarrow> int list \<Rightarrow> int \<Rightarrow> int list \<Rightarrow> py_error + int list" where
  "noise_loop 0 x el color dest = Inr dest"
| "noise_loop (Suc k) x el color dest =
     (let x' = lcg_next x in
      case py_get el (x' mod int (length el)) of
        Inl e \<Rightarrow> Inl e
      | Inr idx \<Rightarrow>
          (case py_set dest idx color of
             Inl e \<Rightarrow> Inl e
           | Inr dest' \<Rightarrow> noise_loop k x' el color dest'))"

definition noise_points ::
  "int list \<Rightarrow> int list \<Rightarrow> int \<Rightarrow> int \<Rightarrow> int \<Rightarrow> int \<Rightarrow> int \<Rightarrow> py_error + int list" where
  "noise_points dest msk w h color count seed =
     (let el = eligible msk in
      if el = [] \<or> count \<le> 0 then Inr dest
      else noise_loop (nat count) (seed AND 0x7FFFFFFF) el color dest)"

section \<open>render.py: render_frame\<close>

text \<open>The three variables of the interpreter: the layer dictionary, the merge order, the current layer.\<close>

record render_state =
  layers :: "string \<rightharpoonup> int list"
  layer_order :: "string list"
  current :: string

definition merged :: "render_state \<Rightarrow> int \<Rightarrow> int \<Rightarrow> int list result" where
  "merged st w h = merge_layers (layers st) (layer_order st) w h"

text \<open>
  \<^verbatim>\<open>buf = ensure_layer(layers, layer_order, current, w, h)\<close> followed by statements that
  mutate \<open>buf\<close>: the new contents are stored back under the current name.
\<close>

definition on_current ::
  "render_state \<Rightarrow> int \<Rightarrow> int \<Rightarrow> (int list \<Rightarrow> int list result) \<Rightarrow> render_state result" where
  "on_current st w h body =
     (case ensure_layer (layers st) (layer_order st) (current st) w h of
        (ls, order, buf) \<Rightarrow>
          bindE (body buf) (\<lambda>buf.
            Inr (st\<lparr>layers := ls(current st \<mapsto> buf), layer_order := order\<rparr>)))"

text \<open>A raster primitive applied to a layer buffer.\<close>

definition raster :: "(canvas \<Rightarrow> canvas result) \<Rightarrow> int list \<Rightarrow> int list result" where
  "raster prim buf = bindE (prim \<lparr>pixels = buf, writes = []\<rparr>) (\<lambda>cv. Inr (pixels cv))"

text \<open>\<^verbatim>\<open>name = op[0]\<close> on whatever value the op is, and the items of an op that is a list.\<close>

fun op_name :: "json \<Rightarrow> json result" where
  "op_name (JArr []) = Inl IndexError"
| "op_name (JArr (n # xs)) = Inr n"
| "op_name (JStr []) = Inl IndexError"
| "op_name (JStr (c # cs)) = Inr (JStr [c])"
| "op_name (JObj kvs) = Inl (KeyError ''0'')"
| "op_name v = Inl TypeError"

fun op_items :: "json \<Rightarrow> json list" where
  "op_items (JArr xs) = xs"
| "op_items v = []"

text \<open>The gradient ops' index argument: a comma-separated string or a single number.\<close>

definition gradient_indices :: "json \<Rightarrow> int list result" where
  "gradient_indices a =
     (case a of
        JStr s \<Rightarrow> ints_of (map JStr (split_on CHR '','' s))
      | _ \<Rightarrow> bindE (py_int a) (\<lambda>n. Inr [n]))"

text \<open>The loop of poly_fill over \<open>op[2:]\<close>, two items at a time.\<close>

fun poly_points :: "json list \<Rightarrow> (real \<times> real) list result" where
  "poly_points [] = Inr []"
| "poly_points [a] = bindE (py_float a) (\<lambda>x. Inl IndexError)"
| "poly_points (a # b # vs) =
     bindE (py_float a) (\<lambda>x. bindE (py_float b) (\<lambda>y.
       bindE (poly_points vs) (\<lambda>ps. Inr ((x, y) # ps))))"

text \<open>The bodies of mirror, translate and rotate, written in render_frame itself.\<close>

definition mirror_buf :: "string \<Rightarrow> int \<Rightarrow> int \<Rightarrow> int list \<Rightarrow> int list result" where
  "mirror_buf axis w h buf =
     (if axis = ''x'' then
        foldE (\<lambda>y buf.
           let row = y * w in
           foldE (\<lambda>x buf. bindE (py_get buf (row + x)) (\<lambda>v. py_set buf (row + (w - 1 - x)) v))
             (py_range 0 (w div 2)) buf)
         (py_range 0 h) buf
      else if axis = ''y'' then
        foldE (\<lambda>x buf.
           foldE (\<lambda>y buf. bindE (py_get buf (y * w + x)) (\<lambda>v. py_set buf ((h - 1 - y) * w + x) v))
             (py_range 0 (h div 2)) buf)
         (py_range 0 w) buf
      else Inr buf)"

definition translate_buf :: "int \<Rightarrow> int \<Rightarrow> int \<Rightarrow> int \<Rightarrow> int list \<Rightarrow> int list result" where
  "translate_buf dx dy w h buf =
     (let old = buf in
      bindE (foldE (\<lambda>i buf. py_set buf i 0) (py_range 0 (int (length buf))) buf) (\<lambda>buf.
        foldE (\<lambda>y. foldE (\<lambda>x buf.
            let sx = x - dx; sy = y - dy in
            if 0 \<le> sx \<and> sx < w \<and> 0 \<le> sy \<and> sy < h
            then bindE (py_get old (sy * w + sx)) (\<lambda>v. py_set buf (y * w + x) v)
            else Inr buf)
          (py_range 0 w)) (py_range 0 h) buf))"

definition rotate_buf :: "real \<Rightarrow> real \<Rightarrow> real \<Rightarrow> int \<Rightarrow> int \<Rightarrow> int list \<Rightarrow> int list result" where
  "rotate_buf angle_deg cx cy w h buf =
     (let angle = math_radians angle_deg; cos_a = math_cos angle; sin_a = math_sin angle; old = buf in
      bindE (foldE (\<lambda>i buf. py_set buf i 0) (py_range 0 (int (length buf))) buf) (\<lambda>buf.
        foldE (\<lambda>y. foldE (\<lambda>x buf.
            let tx = real_of_int x - cx; ty = real_of_int y - cy;
                sx = py_round (tx * cos_a + ty * sin_a + cx);
                sy = py_round (- tx * sin_a + ty * cos_a + cy)
            in if 0 \<le> sx \<and> sx < w \<and> 0 \<le> sy \<and> sy < h
               then bindE (py_get old (sy * w + sx)) (\<lambda>v. py_set buf (y * w + x) v)
               else Inr buf)
          (py_range 0 w)) (py_range 0 h) buf))"

text \<open>
  The branches of the chain of \<^verbatim>\<open>if name == ...\<close>, one definition per op name.
  \<open>xs\<close> are the items of the op, so \<open>op[k]\<close> is \<open>py_get xs k\<close>.
\<close>

definition op_clear :: "render_state \<Rightarrow> int \<Rightarrow> int \<Rightarrow> json list \<Rightarrow> render_state result" where
  "op_clear st w h xs =
     bindE (py_get xs 1) (\<lambda>a. bindE (py_int a) (\<lambda>c.
       Inr (st\<lparr>layers := (\<lambda>k. case layers st k of
                                  None \<Rightarrow> None
                                | Some b \<Rightarrow> Some (replicate (nat (w * h)) c))\<rparr>)))"

definition op_layer_begin :: "render_state \<Rightarrow> int \<Rightarrow> int \<Rightarrow> json list \<Rightarrow> render_state result" where
  "op_layer_begin st w h xs =
     bindE (py_get xs 1) (\<lambda>a. bindE (py_str a) (\<lambda>cur.
       case ensure_layer (layers st) (layer_order st) cur w h of
         (ls, order, buf) \<Rightarrow> Inr \<lparr>layers = ls, layer_order = order, current = cur\<rparr>))"

definition op_layer_end :: "render_state \<Rightarrow> int \<Rightarrow> int \<Rightarrow> json list \<Rightarrow> render_state result" where
  "op_layer_end st w h xs =
     Inr (st\<lparr>current := ''base''\<rparr>)"

definition op_layer_merge :: "render_state \<Rightarrow> int \<Rightarrow> int \<Rightarrow> json list \<Rightarrow> render_state result" where
  "op_layer_merge st w h xs =
     bindE (if length xs > 1 then bindE (py_get xs 1) py_str else Inr ''base'') (\<lambda>target.
       bindE (merged st w h) (\<lambda>m.
         Inr \<lparr>layers = [target \<mapsto> m], layer_order = [target], current = target\<rparr>))"

definition op_pixel :: "render_state \<Rightarrow> int \<Rightarrow> int \<Rightarrow> json list \<Rightarrow> render_state result" where
  "op_pixel st w h xs =
     bindE (unpack_ints 3 (py_slice xs 1 4)) (\<lambda>ns.
       case ns of
         [c, x, y] \<Rightarrow>
           on_current st w h (\<lambda>buf. if in_bounds x y w h then py_set buf (y * w + x) c else Inr buf)
       | _ \<Rightarrow> Inl ValueError)"

definition op_line :: "render_state \<Rightarrow> int \<Rightarrow> int \<Rightarrow> json list \<Rightarrow> render_state result" where
  "op_line st w h xs =
     bindE (unpack_ints 5 (py_slice xs 1 6)) (\<lambda>ns.
       case ns of
         [c, x0, y0, x1, y1] \<Rightarrow>
           on_current st w h (raster (\<lambda>buf. draw_line buf w h c x0 y0 x1 y1))
       | _ \<Rightarrow> Inl ValueError)"

definition op_thick_line :: "render_state \<Rightarrow> int \<Rightarrow> int \<Rightarrow> json list \<Rightarrow> render_state result" where
  "op_thick_line st w h xs =
     bindE (unpack_ints 6 (py_slice xs 1 7)) (\<lambda>ns.
       case ns of
         [c, x0, y0, x1, y1, t] \<Rightarrow>
           on_current st w h (raster (\<lambda>buf. draw_thick_line buf w h c x0 y0 x1 y1 t))
       | _ \<Rightarrow> Inl ValueError)"

definition op_capsule_fill :: "render_state \<Rightarrow> int \<Rightarrow> int \<Rightarrow> json list \<Rightarrow> render_state result" where
  "op_capsule_fill st w h xs =
     bindE (unpack_ints 6 (py_slice xs 1 7)) (\<lambda>ns.
       case ns of
         [c, x0, y0, x1, y1, r] \<Rightarrow>
           on_current st w h (raster (\<lambda>buf. capsule_fill buf w h c x0 y0 x1 y1 r))
       | _ \<Rightarrow> Inl ValueError)"

definition op_rect :: "render_state \<Rightarrow> int \<Rightarrow> int \<Rightarrow> json list \<Rightarrow> render_state result" where
  "op_rect st w h xs =
     bindE (unpack_ints 5 (py_slice xs 1 6)) (\<lambda>ns.
       case ns of
         [c, x, y, rw, rh] \<Rightarrow>
           on_current st w h (raster (\<lambda>buf. rect_stroke buf w h c x y rw rh))
       | _ \<Rightarrow> Inl ValueError)"

definition op_rect_fill :: "render_state \<Rightarrow> int \<Rightarrow> int \<Rightarrow> json list \<Rightarrow> render_state result" where
  "op_rect_fill st w h xs =
     bindE (unpack_ints 5 (py_slice xs 1 6)) (\<lambda>ns.
       case ns of
         [c, x, y, rw, rh] \<Rightarrow>
           on_current st w h (raster (\<lambda>buf. rect_fill buf w h c x y rw rh))
       | _ \<Rightarrow> Inl ValueError)"

definition op_rect_stroke :: "render_state \<Rightarrow> int \<Rightarrow> int \<Rightarrow> json list \<Rightarrow> render_state result" where
  "op_rect_stroke st w h xs =
     bindE (unpack_ints 5 (py_slice xs 1 6)) (\<lambda>ns.
       case ns of
         [c, x, y, rw, rh] \<Rightarrow>
           on_current st w h (raster (\<lambda>buf. rect_stroke buf w h c x y rw rh))
       | _ \<Rightarrow> Inl ValueError)"

definition op_ellipse_fill :: "render_state \<Rightarrow> int \<Rightarrow> int \<Rightarrow> json list \<Rightarrow> render_state result" where
  "op_ellipse_fill st w h xs =
     bindE (unpack_ints 5 (py_slice xs 1 6)) (\<lambda>ns.
       case ns of
         [c, cx, cy, rx, ry] \<Rightarrow>
           on_current st w h (raster (\<lambda>buf. ellipse_fill buf w h c cx cy rx ry))
       | _ \<Rightarrow> Inl ValueError)"

definition op_ellipse_stroke :: "render_state \<Rightarrow> int \<Rightarrow> int \<Rightarrow> json list \<Rightarrow> render_state result" where
  "op_ellipse_stroke st w h xs =
     bindE (unpack_ints 5 (py_slice xs 1 6)) (\<lambda>ns.
       case ns of
         [c, cx, cy, rx, ry] \<Rightarrow>
           on_current st w h (raster (\<lambda>buf. ellipse_stroke buf w h c cx cy rx ry))
       | _ \<Rightarrow> Inl ValueError)"

definition op_gradient_radial :: "render_state \<Rightarrow> int \<Rightarrow> int \<Rightarrow> json list \<Rightarrow> render_state result" where
  "op_gradient_radial st w h xs =
     bindE (py_get xs 1) (\<lambda>a. bindE (gradient_indices a) (\<lambda>indices.
       bindE (unpack_ints 3 (py_slice xs 2 5)) (\<lambda>ns.
         case ns of
           [cx, cy, r] \<Rightarrow>
             on_current st w h (raster (\<lambda>buf. gradient_radial buf w h indices cx cy r))
         | _ \<Rightarrow> Inl ValueError)))"

definition op_gradient_linear :: "render_state \<Rightarrow> int \<Rightarrow> int \<Rightarrow> json list \<Rightarrow> render_state result" where
  "op_gradient_linear st w h xs =
     bindE (py_get xs 1) (\<lambda>a. bindE (gradient_indices a) (\<lambda>indices.
       bindE (unpack_ints 4 (py_slice xs 2 6)) (\<lambda>ns.
         case ns of
           [x0, y0, x1, y1] \<Rightarrow>
             on_current st w h (raster (\<lambda>buf. gradient_linear buf w h indices x0 y0 x1 y1))
         | _ \<Rightarrow> Inl ValueError)))"

definition op_color_replace :: "render_state \<Rightarrow> int \<Rightarrow> int \<Rightarrow> json list \<Rightarrow> render_state result" where
  "op_color_replace st w h xs =
     bindE (unpack_ints 2 (py_slice xs 1 3)) (\<lambda>ns.
       case ns of
         [old_c, new_c] \<Rightarrow>
           bindE (if length xs > 3 then bindE (py_get xs 3) (\<lambda>a. bindE (py_str a) (\<lambda>s. Inr (Some s)))
                  else Inr None) (\<lambda>layer_mask_name.
             let msk = (case layer_mask_name of
                          None \<Rightarrow> None
                        | Some n \<Rightarrow> if n = [] then None else layers st n)
             in on_current st w h (raster (\<lambda>buf. color_replace buf w h old_c new_c msk)))
       | _ \<Rightarrow> Inl ValueError)"

definition op_mask_layer :: "render_state \<Rightarrow> int \<Rightarrow> int \<Rightarrow> json list \<Rightarrow> render_state result" where
  "op_mask_layer st w h xs =
     bindE (py_get xs 1) (\<lambda>a. bindE (py_str a) (\<lambda>mask_name.
       case layers st mask_name of
         None \<Rightarrow> Inr st
       | Some msk \<Rightarrow>
           if msk = [] then Inr st
           else on_current st w h (raster (\<lambda>buf. mask_layer_fn buf msk))))"

definition op_outline_layer :: "render_state \<Rightarrow> int \<Rightarrow> int \<Rightarrow> json list \<Rightarrow> render_state result" where
  "op_outline_layer st w h xs =
     bindE (py_get xs 1) (\<lambda>a. bindE (py_int a) (\<lambda>color.
       bindE (if length xs > 2 then bindE (py_get xs 2) py_int else Inr 1) (\<lambda>thickness.
         on_current st w h (raster (\<lambda>buf. outline_layer buf w h thickness color)))))"

definition op_circle_fill :: "render_state \<Rightarrow> int \<Rightarrow> int \<Rightarrow> json list \<Rightarrow> render_state result" where
  "op_circle_fill st w h xs =
     bindE (unpack_ints 4 (py_slice xs 1 5)) (\<lambda>ns.
       case ns of
         [c, cx, cy, r] \<Rightarrow>
           on_current st w h (raster (\<lambda>buf. ellipse_fill buf w h c cx cy r r))
       | _ \<Rightarrow> Inl ValueError)"

definition op_bezier :: "render_state \<Rightarrow> int \<Rightarrow> int \<Rightarrow> json list \<Rightarrow> render_state result" where
  "op_bezier st w h xs =
     bindE (unpack_ints 7 (py_slice xs 1 8)) (\<lambda>ns.
       case ns of
         [c, x0, y0, cx, cy, x1, y1] \<Rightarrow>
           on_current st w h (raster (\<lambda>buf. draw_bezier buf w h c x0 y0 cx cy x1 y1))
       | _ \<Rightarrow> Inl ValueError)"

definition op_dither_rect :: "render_state \<Rightarrow> int \<Rightarrow> int \<Rightarrow> json list \<Rightarrow> render_state result" where
  "op_dither_rect st w h xs =
     bindE (unpack_ints 5 (py_slice xs 1 6)) (\<lambda>ns.
       case ns of
         [c, x, y, rw, rh] \<Rightarrow>
           bindE (if length xs > 6 then bindE (py_get xs 6) py_str else Inr ''checker'') (\<lambda>pattern.
             on_current st w h (raster (\<lambda>buf. dither_rect buf w h c x y rw rh pattern)))
       | _ \<Rightarrow> Inl ValueError)"

definition op_mirror :: "render_state \<Rightarrow> int \<Rightarrow> int \<Rightarrow> json list \<Rightarrow> render_state result" where
  "op_mirror st w h xs =
     bindE (if length xs > 1 then bindE (py_get xs 1) py_str else Inr ''x'') (\<lambda>axis.
       on_current st w h (mirror_buf axis w h))"

definition op_copy_layer :: "render_state \<Rightarrow> int \<Rightarrow> int \<Rightarrow> json list \<Rightarrow> render_state result" where
  "op_copy_layer st w h xs =
     bindE (py_get xs 1) (\<lambda>a. bindE (py_str a) (\<lambda>src_name.
       bindE (py_get xs 2) (\<lambda>b. bindE (py_str b) (\<lambda>dst_name.
         case layers st src_name of
           None \<Rightarrow> Inr st
         | Some src \<Rightarrow>
             if src = [] then Inr st
             else Inr (st\<lparr>layers := (layers st)(dst_name \<mapsto> src),
                           layer_order := (if dst_name \<in> set (layer_order st) then layer_order st
                                           else layer_order st @ [dst_name])\<rparr>)))))"

definition op_translate :: "render_state \<Rightarrow> int \<Rightarrow> int \<Rightarrow> json list \<Rightarrow> render_state result" where
  "op_translate st w h xs =
     bindE (unpack_ints 2 (py_slice xs 1 3)) (\<lambda>ns.
       case ns of
         [dx, dy] \<Rightarrow> on_current st w h (translate_buf dx dy w h)
       | _ \<Rightarrow> Inl ValueError)"

definition op_rotate :: "render_state \<Rightarrow> int \<Rightarrow> int \<Rightarrow> json list \<Rightarrow> render_state result" where
  "op_rotate st w h xs =
     bindE (py_get xs 1) (\<lambda>a. bindE (py_float a) (\<lambda>angle_deg.
       bindE (if length xs > 2 then bindE (py_get xs 2) py_float else Inr (real_of_int w / 2)) (\<lambda>cx.
         bindE (if length xs > 3 then bindE (py_get xs 3) py_float else Inr (real_of_int h / 2)) (\<lambda>cy.
           on_current st w h (rotate_buf angle_deg cx cy w h)))))"

definition op_poly_fill :: "render_state \<Rightarrow> int \<Rightarrow> int \<Rightarrow> json list \<Rightarrow> render_state result" where
  "op_poly_fill st w h xs =
     bindE (py_get xs 1) (\<lambda>a. bindE (py_int a) (\<lambda>c.
       bindE (poly_points (drop 2 xs)) (\<lambda>points.
         on_current st w h (raster (\<lambda>buf. draw_poly buf w h c points)))))"

definition op_fill :: "render_state \<Rightarrow> int \<Rightarrow> int \<Rightarrow> json list \<Rightarrow> render_state result" where
  "op_fill st w h xs =
     bindE (unpack_ints 3 (py_slice xs 1 4)) (\<lambda>ns.
       case ns of
         [c, x, y] \<Rightarrow> on_current st w h (raster (\<lambda>buf. flood_fill buf w h c x y))
       | _ \<Rightarrow> Inl ValueError)"

definition op_inset_fill :: "render_state \<Rightarrow> int \<Rightarrow> int \<Rightarrow> json list \<Rightarrow> render_state result" where
  "op_inset_fill st w h xs =
     bindE (unpack_ints 6 (py_slice xs 1 7)) (\<lambda>ns.
       case ns of
         [c, x, y, rw, rh, inset] \<Rightarrow>
           (case ensure_layer (layers st) (layer_order st) (current st) w h of
              (ls, order, buf) \<Rightarrow>
                bindE (merge_layers ls order w h) (\<lambda>msk.
                  bindE (inset_fill_on_mask buf msk w h c x y rw rh inset) (\<lambda>buf.
                    Inr (st\<lparr>layers := ls(current st \<mapsto> buf), layer_order := order\<rparr>))))
       | _ \<Rightarrow> Inl ValueError)"

definition op_shade_band :: "render_state \<Rightarrow> int \<Rightarrow> int \<Rightarrow> json list \<Rightarrow> render_state result" where
  "op_shade_band st w h xs =
     bindE (py_get xs 1) (\<lambda>a. bindE (py_int a) (\<lambda>c.
       bindE (py_get xs 2) (\<lambda>b. bindE (py_str b) (\<lambda>layer_name.
         bindE (py_get xs 3) (\<lambda>d. bindE (py_str d) (\<lambda>side.
           bindE (if length xs > 4 then bindE (py_get xs 4) py_int else Inr 1) (\<lambda>thickness.
             case ensure_layer (layers st) (layer_order st) (current st) w h of
               (ls, order, buf) \<Rightarrow>
                 (case ls layer_name of
                    None \<Rightarrow> Inl (MissingLayer ''shade_band'' layer_name)
                  | Some msk \<Rightarrow>
                      bindE (shade_band (layer_name = current st) buf msk w h c side thickness) (\<lambda>buf.
                        Inr (st\<lparr>layers := ls(current st \<mapsto> buf), layer_order := order\<rparr>))))))))))"

definition op_noise_points :: "render_state \<Rightarrow> int \<Rightarrow> int \<Rightarrow> json list \<Rightarrow> render_state result" where
  "op_noise_points st w h xs =
     bindE (py_get xs 1) (\<lambda>a. bindE (py_int a) (\<lambda>c.
       bindE (py_get xs 2) (\<lambda>b. bindE (py_str b) (\<lambda>layer_name.
         bindE (py_get xs 3) (\<lambda>d. bindE (py_int d) (\<lambda>count.
           bindE (py_get xs 4) (\<lambda>e. bindE (py_int e) (\<lambda>seed.
             case ensure_layer (layers st) (layer_order st) (current st) w h of
               (ls, order, buf) \<Rightarrow>
                 (case ls layer_name of
                    None \<Rightarrow> Inl (MissingLayer ''noise_points'' layer_name)
                  | Some msk \<Rightarrow>
                      bindE (noise_points buf msk w h c count seed) (\<lambda>buf.
                        Inr (st\<lparr>layers := ls(current st \<mapsto> buf), layer_order := order\<rparr>)))))))))))"

definition op_outline :: "render_state \<Rightarrow> int \<Rightarrow> int \<Rightarrow> json list \<Rightarrow> render_state result" where
  "op_outline st w h xs =
     bindE (py_get xs 1) (\<lambda>a. bindE (py_int a) (\<lambda>outline_color.
       bindE (if length xs > 2 then bindE (py_get xs 2) py_int else Inr 1) (\<lambda>thickness.
         case ensure_layer (layers st) (layer_order st) (current st) w h of
           (ls, order, buf) \<Rightarrow>
             bindE (merge_layers ls order w h) (\<lambda>m.
               let msk = map (\<lambda>v. if v \<noteq> 0 then 1 else 0) m in
               bindE (outline_from_mask buf msk w h outline_color thickness) (\<lambda>buf.
                 Inr (st\<lparr>layers := ls(current st \<mapsto> buf), layer_order := order\<rparr>))))))"

text \<open>
  The chain of \<^verbatim>\<open>if name == ...\<close> of render_frame, in the order of the source: the
  branch that a name selects, or none when the chain falls through to its final
  \<^verbatim>\<open>else\<close>.
\<close>

definition dispatch ::
  "json \<Rightarrow> (render_state \<Rightarrow> int \<Rightarrow> int \<Rightarrow> json list \<Rightarrow> render_state result) option" where
  "dispatch name =
     (
      if name = JStr ''clear'' then Some op_clear
      else if name = JStr ''layer_begin'' then Some op_layer_begin
      else if name = JStr ''layer_end'' then Some op_layer_end
      else if name = JStr ''layer_merge'' then Some op_layer_merge
      else if name = JStr ''pixel'' then Some op_pixel
      else if name = JStr ''line'' then Some op_line
      else if name = JStr ''thick_line'' then Some op_thick_line
      else if name = JStr ''capsule_fill'' then Some op_capsule_fill
      else if name = JStr ''rect'' then Some op_rect
      else if name = JStr ''rect_fill'' then Some op_rect_fill
      else if name = JStr ''rect_stroke'' then Some op_rect_stroke
      else if name = JStr ''ellipse_fill'' then Some op_ellipse_fill
      else if name = JStr ''ellipse_stroke'' then Some op_ellipse_stroke
      else if name = JStr ''gradient_radial'' then Some op_gradient_radial
      else if name = JStr ''gradient_linear'' then Some op_gradient_linear
      else if name = JStr ''color_replace'' then Some op_color_replace
      else if name = JStr ''mask_layer'' then Some op_mask_layer
      else if name = JStr ''outline_layer'' then Some op_outline_layer
      else if name = JStr ''circle_fill'' then Some op_circle_fill
      else if name = JStr ''bezier'' then Some op_bezier
      else if name = JStr ''dither_rect'' then Some op_dither_rect
      else if name = JStr ''mirror'' then Some op_mirror
      else if name = JStr ''copy_layer'' then Some op_copy_layer
      else if name = JStr ''translate'' then Some op_translate
      else if name = JStr ''rotate'' then Some op_rotate
      else if name = JStr ''poly_fill'' then Some op_poly_fill
      else if name = JStr ''fill'' then Some op_fill
      else if name = JStr ''inset_fill'' then Some op_inset_fill
      else if name = JStr ''shade_band'' then Some op_shade_band
      else if name = JStr ''noise_points'' then Some op_noise_points
      else if name = JStr ''outline'' then Some op_outline
      else None)"

text \<open>One turn of \<^verbatim>\<open>for op in ops\<close>; the final \<^verbatim>\<open>else\<close> raises the unknown-op error.\<close>

definition render_op :: "render_state \<Rightarrow> int \<Rightarrow> int \<Rightarrow> json \<Rightarrow> render_state result" where
  "render_op st w h op =
     bindE (op_name op) (\<lambda>name.
       case dispatch name of
         Some branch \<Rightarrow> branch st w h (op_items op)
       | None \<Rightarrow> Inl (UnknownOp name))"

definition initial_state :: "int \<Rightarrow> int \<Rightarrow> render_state" where
  "initial_state w h = \<lparr>layers = [''base'' \<mapsto> zeros w h], layer_order = [''base''], current = ''base''\<rparr>"

definition render_frame :: "json \<Rightarrow> int \<Rightarrow> int \<Rightarrow> int list result" where
  "render_frame ops w h =
     bindE (py_iter ops) (\<lambda>ops.
       bindE (foldE (\<lambda>op st. render_op st w h op) ops (initial_state w h)) (\<lambda>st.
         merged st w h))"

section \<open>ops.py\<close>

record op_spec =
  name :: string
  min_args :: nat
  max_args :: nat
  arg_types :: "string list"
  description :: string
  requires_layer :: "string option"
  requires_seed :: bool

text \<open>The dictionary OP_SPECS, in the order of the source.\<close>

definition OP_SPECS :: "(string \<times> op_spec) list" where
  "OP_SPECS = [
    (''clear'', \<lparr>name = ''clear'', min_args = 1, max_args = 1, arg_types = [''color_idx''],
       description = ''Clear all layers to a color'', requires_layer = None, requires_seed = False\<rparr>),
    (''pixel'', \<lparr>name = ''pixel'', min_args = 3, max_args = 3, arg_types = [''color_idx'', ''int'', ''int''],
       description = ''Set a single pixel'', requires_layer = None, requires_seed = False\<rparr>),
    (''layer_begin'', \<lparr>name = ''layer_begin'', min_args = 1, max_args = 1, arg_types = [''str''],
       description = ''Begin a named layer'', requires_layer = None, requires_seed = False\<rparr>),
    (''layer_end'', \<lparr>name = ''layer_end'', min_args = 0, max_args = 0, arg_types = [],
       description = ''End current layer'', requires_layer = None, requires_seed = False\<rparr>),
    (''layer_merge'', \<lparr>name = ''layer_merge'', min_args = 0, max_args = 1, arg_types = [''str''],
       description = ''Merge all layers'', requires_layer = None, requires_seed = False\<rparr>),
    (''copy_layer'', \<lparr>name = ''copy_layer'', min_args = 2, max_args = 2, arg_types = [''str'', ''str''],
       description = ''Copy layer src to dst'', requires_layer = None, requires_seed = False\<rparr>),
    (''line'', \<lparr>name = ''line'', min_args = 5, max_args = 5, arg_types = [''color_idx'', ''int'', ''int'', ''int'', ''int''],
       description = ''Draw a line'', requires_layer = None, requires_seed = False\<rparr>),
    (''thick_line'', \<lparr>name = ''thick_line'', min_args = 6, max_args = 6, arg_types = [''color_idx'', ''int'', ''int'', ''int'', ''int'', ''int''],
       description = ''Draw a thick line'', requires_layer = None, requires_seed = False\<rparr>),
    (''rect'', \<lparr>name = ''rect'', min_args = 5, max_args = 5, arg_types = [''color_idx'', ''int'', ''int'', ''int'', ''int''],
       description = ''Draw rectangle outline'', requires_layer = None, requires_seed = False\<rparr>),
    (''rect_fill'', \<lparr>name = ''rect_fill'', min_args = 5, max_args = 5, arg_types = [''color_idx'', ''int'', ''int'', ''int'', ''int''],
       description = ''Draw filled rectangle'', requires_layer = None, requires_seed = False\<rparr>),
    (''rect_stroke'', \<lparr>name = ''rect_stroke'', min_args = 5, max_args = 5, arg_types = [''color_idx'', ''int'', ''int'', ''int'', ''int''],
       description = ''Draw rectangle outline'', requires_layer = None, requires_seed = False\<rparr>),
    (''ellipse_fill'', \<lparr>name = ''ellipse_fill'', min_args = 5, max_args = 5, arg_types = [''color_idx'', ''int'', ''int'', ''int'', ''int''],
       description = ''Draw filled ellipse'', requires_layer = None, requires_seed = False\<rparr>),
    (''ellipse_stroke'', \<lparr>name = ''ellipse_stroke'', min_args = 5, max_args = 5, arg_types = [''color_idx'', ''int'', ''int'', ''int'', ''int''],
       description = ''Draw ellipse outline'', requires_layer = None, requires_seed = False\<rparr>),
    (''circle_fill'', \<lparr>name = ''circle_fill'', min_args = 4, max_args = 4, arg_types = [''color_idx'', ''int'', ''int'', ''int''],
       description = ''Draw filled circle'', requires_layer = None, requires_seed = False\<rparr>),
    (''capsule_fill'', \<lparr>name = ''capsule_fill'', min_args = 6, max_args = 6, arg_types = [''color_idx'', ''int'', ''int'', ''int'', ''int'', ''int''],
       description = ''Draw capsule shape'', requires_layer = None, requires_seed = False\<rparr>),
    (''poly_fill'', \<lparr>name = ''poly_fill'', min_args = 3, max_args = 100, arg_types = [''color_idx''],
       description = ''Draw filled polygon (pairs of x,y follow)'', requires_layer = None, requires_seed = False\<rparr>),
    (''bezier'', \<lparr>name = ''bezier'', min_args = 7, max_args = 7, arg_types = [''color_idx'', ''int'', ''int'', ''int'', ''int'', ''int'', ''int''],
       description = ''Draw quadratic bezier curve'', requires_layer = None, requires_seed = False\<rparr>),
    (''fill'', \<lparr>name = ''fill'', min_args = 3, max_args = 3, arg_types = [''color_idx'', ''int'', ''int''],
       description = ''Flood fill from point'', requires_layer = None, requires_seed = False\<rparr>),
    (''inset_fill'', \<lparr>name = ''inset_fill'', min_args = 6, max_args = 6, arg_types = [''color_idx'', ''int'', ''int'', ''int'', ''int'', ''int''],
       description = ''Fill with inset'', requires_layer = None, requires_seed = False\<rparr>),
    (''dither_rect'', \<lparr>name = ''dither_rect'', min_args = 5, max_args = 6, arg_types = [''color_idx'', ''int'', ''int'', ''int'', ''int'', ''str''],
       description = ''Draw dithered rectangle'', requires_layer = None, requires_seed = False\<rparr>),
    (''gradient_radial'', \<lparr>name = ''gradient_radial'', min_args = 4, max_args = 4, arg_types = [''str'', ''int'', ''int'', ''int''],
       description = ''Draw radial gradient'', requires_layer = None, requires_seed = False\<rparr>),
    (''gradient_linear'', \<lparr>name = ''gradient_linear'', min_args = 5, max_args = 5, arg_types = [''str'', ''int'', ''int'', ''int'', ''int''],
       description = ''Draw linear gradient'', requires_layer = None, requires_seed = False\<rparr>),
    (''mask_layer'', \<lparr>name = ''mask_layer'', min_args = 1, max_args = 1, arg_types = [''layer_name''],
       description = ''Mask current layer by another'', requires_layer = Some ''0'', requires_seed = False\<rparr>),
    (''outline'', \<lparr>name = ''outline'', min_args = 1, max_args = 2, arg_types = [''color_idx'', ''int''],
       description = ''Add outline around all non-zero pixels'', requires_layer = None, requires_seed = False\<rparr>),
    (''outline_layer'', \<lparr>name = ''outline_layer'', min_args = 1, max_args = 2, arg_types = [''color_idx'', ''int''],
       description = ''Add outline to current layer'', requires_layer = None, requires_seed = False\<rparr>),
    (''shade_band'', \<lparr>name = ''shade_band'', min_args = 3, max_args = 4, arg_types = [''color_idx'', ''layer_name'', ''str'', ''int''],
       description = ''Add shading band'', requires_layer = Some ''1'', requires_seed = False\<rparr>),
    (''noise_points'', \<lparr>name = ''noise_points'', min_args = 4, max_args = 4, arg_types = [''color_idx'', ''layer_name'', ''int'', ''int''],
       description = ''Add noise points'', requires_layer = Some ''1'', requires_seed = True\<rparr>),
    (''color_replace'', \<lparr>name = ''color_replace'', min_args = 2, max_args = 3, arg_types = [''color_idx'', ''color_idx'', ''layer_name''],
       description = ''Replace one color with another'', requires_layer = None, requires_seed = False\<rparr>),
    (''translate'', \<lparr>name = ''translate'', min_args = 2, max_args = 2, arg_types = [''int'', ''int''],
       description = ''Translate current layer'', requires_layer = None, requires_seed = False\<rparr>),
    (''rotate'', \<lparr>name = ''rotate'', min_args = 1, max_args = 3, arg_types = [''float'', ''float'', ''float''],
       description = ''Rotate current layer'', requires_layer = None, requires_seed = False\<rparr>),
    (''mirror'', \<lparr>name = ''mirror'', min_args = 0, max_args = 1, arg_types = [''str''],
       description = ''Mirror current layer'', requires_layer = None, requires_seed = False\<rparr>)
  ]"

definition get_op_spec :: "string \<Rightarrow> op_spec option" where
  "get_op_spec n = map_of OP_SPECS n"

section \<open>validate.py\<close>

text \<open>
  A diagnostic is a ValidationError object: its message and the optional file, frame
  index and op index.  The messages are a datatype, one constructor per message text of
  the source, with the values the text interpolates.
\<close>

datatype message =
    BadFormat
  | MissingCanvas
  | CanvasNeedsWH
  | CanvasNotIntegers
  | CanvasNotPositive
  | MissingPalette
  | PaletteNotArray
  | PaletteEmpty
  | PaletteColorNotString nat
  | PaletteColorNoHash nat
  | MissingFrames
  | FramesNotArray
  | FramesEmpty
  | BaseNotInteger
  | BaseNotEarlier int
  | InheritedNeedsOverrides
  | FrameNeedsOps
  | OpsNotArray
  | OpNotArray
  | OpEmpty
  | OpNameNotString
  | UnknownOperation string
  | TooFewArguments string nat nat
  | TooManyArguments string nat nat
  | PaletteIndexOutOfBounds int nat
  | UndefinedLayer string string
  | NoiseNeedsSeed
  | AnimationBadFrame string json

datatype validation_error =
  ValidationError (message: message) (path: "string option") (frame: "nat option") (op_index: "nat option")

subsection \<open>validate_op\<close>

text \<open>The loop over \<open>op[1:]\<close> that checks the arguments typed \<open>color_idx\<close>.\<close>

definition palette_errors ::
  "op_spec \<Rightarrow> json list \<Rightarrow> nat \<Rightarrow> string option \<Rightarrow> nat \<Rightarrow> nat \<Rightarrow> validation_error list" where
  "palette_errors spec args palette_size pth frame_idx op_idx =
     concat (map (\<lambda>(i, arg).
        if i < length (arg_types spec) \<and> arg_types spec ! i = ''color_idx'' \<and> isinstance_int arg
           \<and> (int_value arg < 0 \<or> int_value arg \<ge> int palette_size)
        then [ValidationError (PaletteIndexOutOfBounds (int_value arg) palette_size)
                pth (Some frame_idx) (Some op_idx)]
        else [])
      (enumerate 0 args))"

definition validate_op ::
  "json \<Rightarrow> nat \<Rightarrow> nat \<Rightarrow> string set \<Rightarrow> string option \<Rightarrow> nat \<Rightarrow> bool \<Rightarrow> validation_error list result" where
  "validate_op op op_idx palette_size defined_layers pth frame_idx strict =
     (case op of
        JArr [] \<Rightarrow> Inr [ValidationError OpEmpty pth (Some frame_idx) (Some op_idx)]
      | JArr (JStr nm # args) \<Rightarrow>
          (case get_op_spec nm of
             None \<Rightarrow> Inr [ValidationError (UnknownOperation nm) pth (Some frame_idx) (Some op_idx)]
           | Some spec \<Rightarrow>
               let arg_count = length args;
                   e1 = (if arg_count < min_args spec then
                           [ValidationError (TooFewArguments nm (min_args spec) arg_count)
                              pth (Some frame_idx) (Some op_idx)]
                         else if arg_count > max_args spec then
                           [ValidationError (TooManyArguments nm (max_args spec) arg_count)
                              pth (Some frame_idx) (Some op_idx)]
                         else []);
                   e2 = palette_errors spec args palette_size pth frame_idx op_idx
               in bindE
                    (case requires_layer spec of
                       None \<Rightarrow> Inr []
                     | Some pos \<Rightarrow>
                         if pos = [] then Inr []
                         else bindE (parse_int pos) (\<lambda>layer_arg_idx.
                           if layer_arg_idx + 1 < int (length (JStr nm # args)) then
                             bindE (py_get (JStr nm # args) (layer_arg_idx + 1)) (\<lambda>a.
                               bindE (py_str a) (\<lambda>layer_name.
                                 if layer_name \<notin> defined_layers then
                                   Inr [ValidationError (UndefinedLayer nm layer_name)
                                          pth (Some frame_idx) (Some op_idx)]
                                 else Inr []))
                           else Inr []))
                    (\<lambda>e3.
                       let e4 = (if requires_seed spec \<and> strict \<and> nm = ''noise_points''
                                    \<and> length (JStr nm # args) < 5
                                 then [ValidationError NoiseNeedsSeed pth (Some frame_idx) (Some op_idx)]
                                 else [])
                       in Inr (e1 @ e2 @ e3 @ e4)))
      | JArr (v # args) \<Rightarrow> Inr [ValidationError OpNameNotString pth (Some frame_idx) (Some op_idx)]
      | _ \<Rightarrow> Inr [ValidationError OpNotArray pth (Some frame_idx) (Some op_idx)])"

subsection \<open>validate_frame\<close>

text \<open>
  The loop over the ops of a concrete frame: the errors so far, the set
  \<open>defined_layers\<close>, and the index of the op.
\<close>

definition tracks_layer :: "json \<Rightarrow> bool" where
  "tracks_layer op = (case op of JArr (n # a # xs) \<Rightarrow> n = JStr ''layer_begin'' | _ \<Rightarrow> False)"

fun validate_ops ::
  "json list \<Rightarrow> nat \<Rightarrow> nat \<Rightarrow> string set \<Rightarrow> string option \<Rightarrow> nat \<Rightarrow> bool \<Rightarrow> validation_error list result" where
  "validate_ops [] op_idx palette_size defined_layers pth frame_idx strict = Inr []"
| "validate_ops (op # ops) op_idx palette_size defined_layers pth frame_idx strict =
     bindE (validate_op op op_idx palette_size defined_layers pth frame_idx strict) (\<lambda>op_errors.
       bindE (if tracks_layer op then
                bindE (py_get (op_items op) 1) (\<lambda>a. bindE (py_str a) (\<lambda>s. Inr (insert s defined_layers)))
              else Inr defined_layers) (\<lambda>defined_layers.
         bindE (validate_ops ops (Suc op_idx) palette_size defined_layers pth frame_idx strict) (\<lambda>rest.
           Inr (op_errors @ rest))))"

definition validate_frame ::
  "json \<Rightarrow> nat \<Rightarrow> nat \<Rightarrow> string option \<Rightarrow> bool \<Rightarrow> validation_error list result" where
  "validate_frame fr frame_idx palette_size pth strict =
     bindE (py_in ''base'' fr) (\<lambda>has_base.
       if has_base then
         bindE (py_item fr ''base'') (\<lambda>b.
           let e1 = (if \<not> isinstance_int b then
                       [ValidationError BaseNotInteger pth (Some frame_idx) None]
                     else if int_value b \<ge> int frame_idx then
                       [ValidationError (BaseNotEarlier (int_value b)) pth (Some frame_idx) None]
                     else [])
           in bindE (py_in ''ops'' fr) (\<lambda>has_ops.
                bindE (if has_ops then Inr True else py_in ''overrides'' fr) (\<lambda>has_ops_or_overrides.
                  bindE (if has_ops_or_overrides then Inr True else py_in ''append_ops'' fr) (\<lambda>has_any.
                    Inr (e1 @ (if \<not> has_any then
                                 [ValidationError InheritedNeedsOverrides pth (Some frame_idx) None]
                               else []))))))
       else
         bindE (py_in ''ops'' fr) (\<lambda>has_ops.
           if \<not> has_ops then Inr [ValidationError FrameNeedsOps pth (Some frame_idx) None]
           else
             bindE (py_item fr ''ops'') (\<lambda>ops.
               case ops of
                 JArr xs \<Rightarrow> validate_ops xs 0 palette_size {''base''} pth frame_idx strict
               | _ \<Rightarrow> Inr [ValidationError OpsNotArray pth (Some frame_idx) None])))"

subsection \<open>validate_sprite\<close>

definition canvas_errors :: "json \<Rightarrow> string option \<Rightarrow> validation_error list result" where
  "canvas_errors data pth =
     bindE (py_in ''canvas'' data) (\<lambda>has_canvas.
       if \<not> has_canvas then Inr [ValidationError MissingCanvas pth None None]
       else
         bindE (py_item data ''canvas'') (\<lambda>cnv.
           bindE (py_in ''w'' cnv) (\<lambda>has_w.
             bindE (if \<not> has_w then Inr False else py_in ''h'' cnv) (\<lambda>has_both.
               if \<not> has_both then Inr [ValidationError CanvasNeedsWH pth None None]
               else
                 bindE (py_item cnv ''w'') (\<lambda>cw.
                   bindE (py_item cnv ''h'') (\<lambda>ch.
                     if \<not> isinstance_int cw \<or> \<not> isinstance_int ch then
                       Inr [ValidationError CanvasNotIntegers pth None None]
                     else if int_value cw \<le> 0 \<or> int_value ch \<le> 0 then
                       Inr [ValidationError CanvasNotPositive pth None None]
                     else Inr []))))))"

definition palette_color_errors :: "json list \<Rightarrow> string option \<Rightarrow> validation_error list" where
  "palette_color_errors colors pth =
     concat (map (\<lambda>(i, color).
        case color of
          JStr s \<Rightarrow> (if take 1 s = ''#'' then [] else [ValidationError (PaletteColorNoHash i) pth None None])
        | _ \<Rightarrow> [ValidationError (PaletteColorNotString i) pth None None])
      (enumerate 0 colors))"

definition palette_check :: "json \<Rightarrow> string option \<Rightarrow> validation_error list result" where
  "palette_check data pth =
     bindE (py_in ''palette'' data) (\<lambda>has_palette.
       if \<not> has_palette then Inr [ValidationError MissingPalette pth None None]
       else
         bindE (py_item data ''palette'') (\<lambda>pal.
           case pal of
             JArr colors \<Rightarrow>
               if colors = [] then Inr [ValidationError PaletteEmpty pth None None]
               else Inr (palette_color_errors colors pth)
           | _ \<Rightarrow> Inr [ValidationError PaletteNotArray pth None None]))"

text \<open>\<^verbatim>\<open>len(data.get(key, []))\<close>\<close>

definition len_of_field :: "json \<Rightarrow> string \<Rightarrow> nat result" where
  "len_of_field data key =
     bindE (py_dict_get data key) (\<lambda>v. case v of None \<Rightarrow> Inr 0 | Some x \<Rightarrow> py_len x)"

fun validate_frames ::
  "json list \<Rightarrow> nat \<Rightarrow> nat \<Rightarrow> string option \<Rightarrow> bool \<Rightarrow> validation_error list result" where
  "validate_frames [] frame_idx palette_size pth strict = Inr []"
| "validate_frames (fr # frs) frame_idx palette_size pth strict =
     bindE (validate_frame fr frame_idx palette_size pth strict) (\<lambda>frame_errors.
       bindE (validate_frames frs (Suc frame_idx) palette_size pth strict) (\<lambda>rest.
         Inr (frame_errors @ rest)))"

definition frames_check :: "json \<Rightarrow> string option \<Rightarrow> bool \<Rightarrow> validation_error list result" where
  "frames_check data pth strict =
     bindE (py_in ''frames'' data) (\<lambda>has_frames.
       if \<not> has_frames then Inr [ValidationError MissingFrames pth None None]
       else
         bindE (py_item data ''frames'') (\<lambda>frs.
           case frs of
             JArr frames \<Rightarrow>
               if frames = [] then Inr [ValidationError FramesEmpty pth None None]
               else bindE (len_of_field data ''palette'') (\<lambda>palette_size.
                      validate_frames frames 0 palette_size pth strict)
           | _ \<Rightarrow> Inr [ValidationError FramesNotArray pth None None]))"

text \<open>\<^verbatim>\<open>d.items()\<close>\<close>

fun py_items :: "json \<Rightarrow> (string \<times> json) list result" where
  "py_items (JObj kvs) = Inr (map (\<lambda>k. (k, the (map_of kvs k))) (remdups (map fst kvs)))"
| "py_items v = Inl AttributeError"

definition animation_errors :: "string \<Rightarrow> json \<Rightarrow> nat \<Rightarrow> string option \<Rightarrow> validation_error list result" where
  "animation_errors anim_name anim_data frame_count pth =
     bindE (py_in ''frames'' anim_data) (\<lambda>has_frames.
       if \<not> has_frames then Inr []
       else
         bindE (py_item anim_data ''frames'') (\<lambda>fs.
           bindE (py_iter fs) (\<lambda>fs.
             Inr (concat (map (\<lambda>f.
                    if \<not> isinstance_int f \<or> int_value f < 0 \<or> int_value f \<ge> int frame_count
                    then [ValidationError (AnimationBadFrame anim_name f) pth None None]
                    else []) fs)))))"

definition animations_check :: "json \<Rightarrow> string option \<Rightarrow> validation_error list result" where
  "animations_check data pth =
     bindE (py_in ''animations'' data) (\<lambda>has_animations.
       if \<not> has_animations then Inr []
       else
         bindE (len_of_field data ''frames'') (\<lambda>frame_count.
           bindE (py_item data ''animations'') (\<lambda>anims.
             bindE (py_items anims) (\<lambda>items.
               foldE (\<lambda>(anim_name, anim_data) errors.
                   bindE (animation_errors anim_name anim_data frame_count pth) (\<lambda>es.
                     Inr (errors @ es)))
                 items []))))"

definition validate_sprite :: "json \<Rightarrow> string option \<Rightarrow> bool \<Rightarrow> validation_error list result" where
  "validate_sprite data pth strict =
     bindE (py_dict_get data ''format'') (\<lambda>fmt.
       let e0 = (if fmt \<noteq> Some (JStr ''spriteops'') then [ValidationError BadFormat pth None None] else [])
       in bindE (canvas_errors data pth) (\<lambda>e1.
            bindE (palette_check data pth) (\<lambda>e2.
              bindE (frames_check data pth strict) (\<lambda>e3.
                bindE (animations_check data pth) (\<lambda>e4.
                  Inr (e0 @ e1 @ e2 @ e3 @ e4))))))"

section \<open>render.py: process_frame_inheritance\<close>

text \<open>
  \<^verbatim>\<open>op_idx is not None and op_idx < len(base_ops)\<close> followed by
  \<^verbatim>\<open>base_ops[op_idx] = override["op"]\<close>: the right-hand side is evaluated first, and a
  list index has to be an integer.
\<close>

definition apply_override :: "json \<Rightarrow> json list \<Rightarrow> json list result" where
  "apply_override override base_ops =
     bindE (py_dict_get override ''op_index'') (\<lambda>op_idx.
       case op_idx of
         None \<Rightarrow> Inr base_ops
       | Some JNull \<Rightarrow> Inr base_ops
       | Some (JFloat r) \<Rightarrow>
           if r < real (length base_ops) then bindE (py_item override ''op'') (\<lambda>v. Inl TypeError)
           else Inr base_ops
       | Some v \<Rightarrow>
           if isinstance_int v then
             (if int_value v < int (length base_ops) then
                bindE (py_item override ''op'') (\<lambda>new_op. py_set base_ops (int_value v) new_op)
              else Inr base_ops)
           else Inl TypeError)"

text \<open>
  The body of the loop for a frame with \<open>base\<close>, from \<^verbatim>\<open>base_ops = list(...)\<close> on:
  \<open>base\<close> is the entry \<open>processed_ops[base_idx]\<close>.
\<close>

definition derive_frame :: "json \<Rightarrow> json \<Rightarrow> json result" where
  "derive_frame fr base =
     bindE (py_iter base) (\<lambda>base_ops.
       bindE (py_in ''overrides'' fr) (\<lambda>has_overrides.
         bindE (if has_overrides then
                  bindE (py_item fr ''overrides'') (\<lambda>ovs. bindE (py_iter ovs) (\<lambda>ovs.
                    foldE apply_override ovs base_ops))
                else Inr base_ops) (\<lambda>base_ops.
           bindE (py_in ''append_ops'' fr) (\<lambda>has_append.
             bindE (if has_append then
                      bindE (py_item fr ''append_ops'') (\<lambda>aps. bindE (py_iter aps) (\<lambda>aps.
                        Inr (base_ops @ aps)))
                    else Inr base_ops) (\<lambda>base_ops.
               Inr (JArr base_ops))))))"

definition resolve_frame :: "json \<Rightarrow> json list \<Rightarrow> json result" where
  "resolve_frame fr processed_ops =
     bindE (py_in ''base'' fr) (\<lambda>has_base.
       if has_base then
         bindE (py_item fr ''base'') (\<lambda>b. bindE (py_int b) (\<lambda>base_idx.
           bindE (py_get processed_ops base_idx) (\<lambda>base. derive_frame fr base)))
       else py_item fr ''ops'')"

definition process_frame_inheritance :: "json list \<Rightarrow> json list result" where
  "process_frame_inheritance raw_frames =
     foldE (\<lambda>fr processed_ops.
         bindE (resolve_frame fr processed_ops) (\<lambda>ops. Inr (processed_ops @ [ops])))
       raw_frames []"

subsection \<open>The claim's description of noise_points\<close>

text \<open>
  The specification's words, as a second definition to compare the code with: the
  recurrence \<open>x \<leftarrow> (1103515245 x + 12345) mod 2\<^sup>3\<^sup>1\<close>, the pixel chosen at the
  \<open>k\<close>-th iteration, the row-major enumeration of a \<open>w \<times> h\<close> canvas, and the buffer
  obtained by storing the colour at the chosen pixels in iteration order.
\<close>

definition lcg :: "int \<Rightarrow> int" where
  "lcg x = (1103515245 * x + 12345) mod 2 ^ 31"

definition noise_targets :: "int list \<Rightarrow> int \<Rightarrow> nat \<Rightarrow> int list" where
  "noise_targets el x0 n = map (\<lambda>k. el ! nat ((lcg ^^ Suc k) x0 mod int (length el))) [0..<n]"

definition row_major :: "nat \<Rightarrow> nat \<Rightarrow> nat list" where
  "row_major w h = concat (map (\<lambda>y. map (\<lambda>x. y * w + x) [0..<w]) [0..<h])"

definition noise_spec :: "int list \<Rightarrow> int list \<Rightarrow> nat \<Rightarrow> nat \<Rightarrow> int \<Rightarrow> int \<Rightarrow> int \<Rightarrow> int list" where
  "noise_spec dest msk w h c n s =
     (let el = map int (filter (\<lambda>i. msk ! i \<noteq> 0) (row_major w h)) in
      if el = [] \<or> n \<le> 0 then dest
      else fold (\<lambda>i d. d[nat i := c]) (noise_targets el (s AND 0x7FFFFFFF) (nat n)) dest)"

section \<open>Bounds safety: the property\<close>

text \<open>
  A canvas of a \<open>w\<close> by \<open>h\<close> image is safe when it has \<open>w * h\<close> pixels and every index
  stored to so far lies in \<open>[0, w * h)\<close>.
\<close>

definition safe :: "int \<Rightarrow> int \<Rightarrow> canvas \<Rightarrow> bool" where
  "safe w h cv \<longleftrightarrow>
     length (pixels cv) = nat (w * h) \<and> list_all (\<lambda>i. 0 \<le> i \<and> i < w * h) (writes cv)"

text \<open>A primitive (or a part of one) that returns normally and keeps the canvas safe.\<close>

definition keeps_safe :: "int \<Rightarrow> int \<Rightarrow> (canvas \<Rightarrow> canvas result) \<Rightarrow> bool" where
  "keeps_safe w h f \<longleftrightarrow> (\<forall>cv. safe w h cv \<longrightarrow> (\<exists>cv'. f cv = Inr cv' \<and> safe w h cv'))"

text \<open>
  Bresenham's loop ends.  After \<open>i\<close> steps in x and \<open>j\<close> steps in y the error term is
  \<open>A * (1 + j) - B * (1 + i)\<close>, where \<open>A\<close> and \<open>B\<close> are the absolute differences of the
  endpoints; with it, a step in x is taken only while \<open>i < A\<close> and a step in y only while
  \<open>j < B\<close>, and every turn takes at least one of them.
\<close>

definition line_inv ::
  "int \<Rightarrow> int \<Rightarrow> int \<Rightarrow> int \<Rightarrow> int \<Rightarrow> int \<Rightarrow> int \<Rightarrow> int \<Rightarrow> int \<times> int \<times> int \<times> canvas \<times> bool \<Rightarrow> bool" where
  "line_inv w h x0 y0 A B sx sy = (\<lambda>(x, y, err, cv, go).
     safe w h cv \<and>
     (go \<longrightarrow> (\<exists>i j. 0 \<le> i \<and> i \<le> A \<and> 0 \<le> j \<and> j \<le> B \<and> x = x0 + sx * i \<and> y = y0 + sy * j
                   \<and> err = A * (1 + j) - B * (1 + i))))"

definition line_measure :: "int \<Rightarrow> int \<Rightarrow> int \<times> int \<times> int \<times> canvas \<times> bool \<Rightarrow> nat" where
  "line_measure x1 y1 = (\<lambda>(x, y, err, cv, go). if go then nat (\<bar>x1 - x\<bar> + \<bar>y1 - y\<bar>) + 1 else 0)"

text \<open>
  The outcome \<open>r\<close> of a primitive called on \<open>buf\<close>: it returned, the buffer has kept its
  length, and every index it stored to lies in \<open>[0, w * h)\<close>.
\<close>

definition bounds_safe :: "int \<Rightarrow> int \<Rightarrow> canvas \<Rightarrow> canvas result \<Rightarrow> bool" where
  "bounds_safe w h buf r \<longleftrightarrow>
     (\<exists>cv. r = Inr cv \<and> length (pixels cv) = length (pixels buf)
           \<and> list_all (\<lambda>i. 0 \<le> i \<and> i < w * h) (writes cv))"

section \<open>Example documents\<close>

text \<open>A document whose second frame has both \<open>base\<close> and \<open>ops\<close>.\<close>

definition doc_base_with_ops :: json where
  "doc_base_with_ops =
     JObj [(''format'', JStr ''spriteops''),
           (''canvas'', JObj [(''w'', JInt 1), (''h'', JInt 1)]),
           (''palette'', JArr [JStr ''#00000000'', JStr ''#ff0000'']),
           (''frames'', JArr [JObj [(''ops'', JArr [])],
                              JObj [(''base'', JInt 0), (''ops'', JArr [])]])]"

text \<open>Three frames, the last one derived with \<open>base = -2\<close>.\<close>

definition frames_negative_base :: "json list" where
  "frames_negative_base =
     [JObj [(''ops'', JArr [JArr [JStr ''clear'', JInt 0]])],
      JObj [(''ops'', JArr [JArr [JStr ''clear'', JInt 1]])],
      JObj [(''base'', JInt (- 2)), (''append_ops'', JArr [JArr [JStr ''pixel'', JInt 1, JInt 0, JInt 0]])]]"

text \<open>One frame whose only op is a shade_band with the side \<open>left\<close>.\<close>

definition doc_unknown_side :: json where
  "doc_unknown_side =
     JObj [(''format'', JStr ''spriteops''),
           (''canvas'', JObj [(''w'', JInt 2), (''h'', JInt 1)]),
           (''palette'', JArr [JStr ''#00000000'', JStr ''#ff0000'']),
           (''frames'', JArr [JObj [(''ops'', JArr [JArr [JStr ''shade_band'', JInt 1, JStr ''base'', JStr ''left'']])]])]"

text \<open>
  Two documents: one whose derived frame appends an op of an unknown name, one whose
  concrete frame has a poly_fill with an odd number of coordinates.  And the first
  scenario of the specification: a 4 by 1 canvas, cleared, with one pixel set.
\<close>

definition doc_unchecked_append :: json where
  "doc_unchecked_append =
     JObj [(''format'', JStr ''spriteops''),
           (''canvas'', JObj [(''w'', JInt 1), (''h'', JInt 1)]),
           (''palette'', JArr [JStr ''#00000000'', JStr ''#ff0000'']),
           (''frames'', JArr [JObj [(''ops'', JArr [])],
                              JObj [(''base'', JInt 0),
                                    (''append_ops'', JArr [JArr [JStr ''no_such_op'']])]])]"

definition doc_odd_polygon :: json where
  "doc_odd_polygon =
     JObj [(''format'', JStr ''spriteops''),
           (''canvas'', JObj [(''w'', JInt 1), (''h'', JInt 1)]),
           (''palette'', JArr [JStr ''#00000000'', JStr ''#ff0000'']),
           (''frames'', JArr [JObj [(''ops'', JArr [JArr [JStr ''poly_fill'', JInt 1, JInt 0, JInt 0, JInt 5]])]])]"

definition doc_scenario_one :: json where
  "doc_scenario_one =
     JObj [(''format'', JStr ''spriteops''),
           (''canvas'', JObj [(''w'', JInt 4), (''h'', JInt 1)]),
           (''palette'', JArr [JStr ''#00000000'', JStr ''#ff0000'']),
           (''frames'', JArr [JObj [(''ops'', JArr [JArr [JStr ''clear'', JInt 0],
                                                     JArr [JStr ''pixel'', JInt 1, JInt 2, JInt 0]])]])]"

section \<open>Noise determinism\<close>

lemma and_7f: "(a::int) AND 0x7FFFFFFF = a mod 2 ^ 31"
proof -
  have "(0x7FFFFFFF::int) = mask 31" by (simp add: mask_eq_exp_minus_1)
  then show ?thesis by (simp only: take_bit_eq_mask [symmetric] take_bit_eq_mod)
qed

lemma lcg_next_eq: "lcg_next x = lcg x"
  by (simp only: lcg_next_def lcg_def and_7f)

lemma eligible_eq: "eligible msk = map int (filter (\<lambda>i. msk ! i \<noteq> 0) [0..<length msk])"
proof (induction msk rule: rev_induct)
  case Nil
  show ?case by (simp add: eligible_def)
next
  case (snoc v vs)
  have old: "filter (\<lambda>i. (vs @ [v]) ! i \<noteq> 0) [0..<length vs] = filter (\<lambda>i. vs ! i \<noteq> 0) [0..<length vs]"
    by (rule filter_cong) (simp_all add: nth_append)
  from snoc show ?case
    by (simp add: eligible_def enumerate_eq_zip old)
qed

lemma upt_mult_row_major: "[0..<h * w] = row_major w h"
proof (induction h)
  case 0
  show ?case by (simp add: row_major_def)
next
  case (Suc h)
  have "Suc h * w = h * w + w" by simp
  then have "[0..<Suc h * w] = [0..<h * w + w]" by (simp only:)
  also have "\<dots> = [0..<h * w] @ [h * w..<h * w + w]"
    by (rule upt_add_eq_append) simp
  also have "[h * w..<h * w + w] = map (\<lambda>x. h * w + x) [0..<w]"
  proof -
    have "map (\<lambda>x. h * w + x) [0..<w] = map (\<lambda>i. i + h * w) [0..<w]"
      by (rule map_cong) simp_all
    also have "\<dots> = [h * w..<w + h * w]" by (rule map_add_upt)
    also have "w + h * w = h * w + w" by simp
    finally show ?thesis by (simp only:)
  qed
  finally have "[0..<Suc h * w] = [0..<h * w] @ map (\<lambda>x. h * w + x) [0..<w]" .
  with Suc show ?case by (simp add: row_major_def)
qed

lemma noise_loop_fold:
  assumes "el \<noteq> []" and "\<forall>i \<in> set el. 0 \<le> i \<and> i < int (length dest)"
  shows "noise_loop k x el c dest = Inr (fold (\<lambda>i d. d[nat i := c]) (noise_targets el x k) dest)"
  using assms(2)
proof (induction k arbitrary: x dest)
  case 0
  show ?case by (simp add: noise_targets_def)
next
  case (Suc k)
  let ?j = "lcg x mod int (length el)"
  from assms(1) have j: "0 \<le> ?j" "?j < int (length el)" by simp_all
  then have get: "py_get el ?j = Inr (el ! nat ?j)"
    by (simp add: py_get_def py_index_def)
  from j have "el ! nat ?j \<in> set el" by simp
  with Suc.prems have t: "0 \<le> el ! nat ?j" "el ! nat ?j < int (length dest)" by auto
  then have put: "py_set dest (el ! nat ?j) c = Inr (dest[nat (el ! nat ?j) := c])"
    by (simp add: py_set_def py_index_def)
  have shift: "(lcg ^^ Suc (Suc i)) x = (lcg ^^ Suc i) (lcg x)" for i
    by (simp only: funpow_Suc_right o_apply)
  have "(lcg ^^ Suc 0) x = lcg x" by simp
  then have tg: "noise_targets el x (Suc k) = el ! nat ?j # noise_targets el (lcg x) k"
    unfolding noise_targets_def by (simp only: map_upt_Suc shift)
  from Suc.prems have "\<forall>i \<in> set el. 0 \<le> i \<and> i < int (length (dest[nat (el ! nat ?j) := c]))" by simp
  from Suc.IH [OF this, of "lcg x"] show ?case
    by (simp add: lcg_next_eq get put tg Let_def)
qed

text \<open>
  C2. For buffers and masks of size \<open>w * h\<close>: noise_points enumerates the eligible
  indices (mask non-zero) in row-major order; with no eligible index or a count
  \<open>\<le> 0\<close> the buffer is returned unchanged; otherwise, starting from
  \<open>seed AND 0x7FFFFFFF\<close> and advancing the generator once per iteration, it stores the
  colour at \<open>eligible[x mod |eligible|]\<close>, iteration after iteration, and raises nothing.
\<close>

theorem noise_points_deterministic:
  assumes "length dest = h * w" and "length msk = h * w"
  shows "noise_points dest msk (int w) (int h) c n s = Inr (noise_spec dest msk w h c n s)"
proof -
  have el: "eligible msk = map int (filter (\<lambda>i. msk ! i \<noteq> 0) (row_major w h))"
    using assms(2) by (simp add: eligible_eq upt_mult_row_major [symmetric])
  show ?thesis
  proof (cases "eligible msk = [] \<or> n \<le> 0")
    case True
    then show ?thesis
      by (simp add: noise_points_def noise_spec_def el [symmetric] Let_def)
  next
    case False
    have "\<forall>i \<in> set (eligible msk). 0 \<le> i \<and> i < int (length dest)"
    proof -
      from assms have "length msk = length dest" by simp
      then show ?thesis by (simp add: eligible_eq)
    qed
    with False have "noise_loop (nat n) (s AND 0x7FFFFFFF) (eligible msk) c dest
        = Inr (fold (\<lambda>i d. d[nat i := c]) (noise_targets (eligible msk) (s AND 0x7FFFFFFF) (nat n)) dest)"
      by (intro noise_loop_fold) simp_all
    with False show ?thesis
      by (simp add: noise_points_def noise_spec_def el [symmetric] Let_def)
  qed
qed

theorem noise_points_deterministic_witness:
  "length [0, 0, 0, 0 :: int] = 2 * 2 \<and> length [1, 0, 1, 1 :: int] = 2 * 2 \<and>
   noise_points [0, 0, 0, 0] [1, 0, 1, 1] 2 2 7 3 42 = Inr [7, 0, 0, 7]"
proof -
  have "noise_spec [0, 0, 0, 0] [1, 0, 1, 1] 2 2 7 3 42 = [7, 0, 0, 7]"
    by code_simp
  with noise_points_deterministic [of "[0, 0, 0, 0]" 2 2 "[1, 0, 1, 1]" 7 3 42]
  show ?thesis by simp
qed

section \<open>Gradient linear scenario\<close>

lemma py_range_0_4: "py_range 0 4 = [0, 1, 2, 3]"
  by code_simp

lemma py_range_0_1: "py_range 0 1 = [0]"
  by code_simp

text \<open>
  C3 as stated: on a 4 by 1 canvas, gradient_linear with endpoints (0,0) and (3,0) and the
  index list [1, 2] produces [1, 1, 2, 2].  The code computes \<open>t = x / 3\<close> and the index
  \<open>int(t * 1)\<close>, which is 0 for \<open>x = 2\<close>: the buffer is [1, 1, 1, 2].  (The quotients
  0, 1/3, 2/3, 1 are truncated after a multiplication by 1, so binary64 rounding cannot
  change the indices.)
\<close>

theorem gradient_linear_scenario_counterexample:
  "\<not> (\<exists>cv. gradient_linear \<lparr>pixels = [0, 0, 0, 0], writes = []\<rparr> 4 1 [1, 2] 0 0 3 0 = Inr cv
          \<and> pixels cv = [1, 1, 2, 2])"
proof -
  have "gradient_linear \<lparr>pixels = [0, 0, 0, 0], writes = []\<rparr> 4 1 [1, 2] 0 0 3 0
        = Inr \<lparr>pixels = [1, 1, 1, 2], writes = [0, 1, 2, 3]\<rparr>"
    by code_simp
  then show ?thesis by simp
qed

text \<open>
  C3, amended: on every 4 by 1 buffer, gradient_linear with endpoints (0,0) and (3,0) and
  the index list [1, 2] returns normally with the pixels [1, 1, 1, 2].
\<close>

theorem gradient_linear_scenario:
  assumes "length (pixels buf) = 4"
  shows "\<exists>cv. gradient_linear buf 4 1 [1, 2] 0 0 3 0 = Inr cv \<and> pixels cv = [1, 1, 1, 2]"
proof -
  from assms obtain a b c d where p: "pixels buf = [a, b, c, d]"
    by (auto simp: length_Suc_conv numeral_eq_Suc)
  have idx: "py_trunc 0 = 0" "py_trunc (1 / 3) = 0" "py_trunc (2 / 3) = 0" "py_trunc 1 = 1"
    by (simp_all add: py_trunc_def)
  show ?thesis
    by (simp add: gradient_linear_def py_range_0_4 py_range_0_1 bindE_def put_def p
        py_get_def py_set_def py_index_def idx Let_def)
qed

theorem gradient_linear_scenario_witness:
  "length (pixels \<lparr>pixels = [7, 7, 7, 7], writes = []\<rparr>) = 4 \<and>
   (\<exists>cv. gradient_linear \<lparr>pixels = [7, 7, 7, 7], writes = []\<rparr> 4 1 [1, 2] 0 0 3 0 = Inr cv
         \<and> pixels cv = [1, 1, 1, 2])"
  using gradient_linear_scenario [of "\<lparr>pixels = [7, 7, 7, 7], writes = []\<rparr>"] by simp

section \<open>Inheritance resolution\<close>

text \<open>
  C5 (a defect of the code).  The claim: an override whose \<open>op_index\<close> is out of range of
  the base op list is silently ignored.  The guard of the code is only
  \<^verbatim>\<open>op_idx < len(base_ops)\<close>: on a one-op base, the override at index \<open>-2\<close> passes the
  guard and the store \<^verbatim>\<open>base_ops[-2] = ...\<close> raises \<open>IndexError\<close>.
\<close>

theorem override_negative_index_raises:
  "process_frame_inheritance
     [JObj [(''ops'', JArr [JArr [JStr ''clear'', JInt 0]])],
      JObj [(''base'', JInt 0),
            (''overrides'', JArr [JObj [(''op_index'', JInt (- 2)),
                                        (''op'', JArr [JStr ''clear'', JInt 1])]])]]
   = Inl IndexError"
  by code_simp

section \<open>Frames with base and ops\<close>

text \<open>
  C6 as stated: a frame with both \<open>base\<close> and \<open>ops\<close> gets at least one diagnostic.
  The document below has such a frame and validates without any diagnostic, strict or not.
\<close>

theorem base_with_ops_counterexample:
  "py_in ''base'' (JObj [(''base'', JInt 0), (''ops'', JArr [])]) = Inr True \<and>
   py_in ''ops'' (JObj [(''base'', JInt 0), (''ops'', JArr [])]) = Inr True \<and>
   validate_sprite doc_base_with_ops None False = Inr [] \<and>
   validate_sprite doc_base_with_ops None True = Inr []"
  unfolding doc_base_with_ops_def by code_simp

text \<open>
  C6, amended: for a frame with both \<open>base\<close> and \<open>ops\<close> the validator reports exactly
  the diagnostics about the value of \<open>base\<close> (not an integer, or not below the frame's
  index), and none when \<open>base\<close> is an integer below the index: \<open>ops\<close> next to \<open>base\<close>
  is accepted.
\<close>

theorem base_with_ops_accepted:
  assumes "py_in ''base'' fr = Inr True" and "py_in ''ops'' fr = Inr True"
    and "py_item fr ''base'' = Inr b"
  shows "validate_frame fr i n pth strict =
           Inr (if \<not> isinstance_int b then [ValidationError BaseNotInteger pth (Some i) None]
                else if int_value b \<ge> int i then
                  [ValidationError (BaseNotEarlier (int_value b)) pth (Some i) None]
                else [])"
  using assms by (simp add: validate_frame_def bindE_def)

theorem base_with_ops_accepted_witness:
  "py_in ''base'' (JObj [(''base'', JInt 0), (''ops'', JArr [])]) = Inr True \<and>
   py_in ''ops'' (JObj [(''base'', JInt 0), (''ops'', JArr [])]) = Inr True \<and>
   py_item (JObj [(''base'', JInt 0), (''ops'', JArr [])]) ''base'' = Inr (JInt 0) \<and>
   validate_frame (JObj [(''base'', JInt 0), (''ops'', JArr [])]) 1 2 None False = Inr []"
  using base_with_ops_accepted [of "JObj [(''base'', JInt 0), (''ops'', JArr [])]" "JInt 0" 1 2 None False]
  by simp

section \<open>Negative base\<close>

lemma py_item_Inr_obj: "py_item fr k = Inr v \<Longrightarrow> \<exists>kvs. fr = JObj kvs"
  by (cases fr) simp_all

lemma resolve_steps:
  assumes "foldE (\<lambda>fr processed_ops.
              bindE (resolve_frame fr processed_ops) (\<lambda>ops. Inr (processed_ops @ [ops])))
            frs acc = Inr ps"
  shows "length ps = length acc + length frs \<and> take (length acc) ps = acc \<and>
         (\<forall>i < length frs. resolve_frame (frs ! i) (take (length acc + i) ps) = Inr (ps ! (length acc + i)))"
  using assms
proof (induction frs arbitrary: acc)
  case Nil
  then show ?case by simp
next
  case (Cons fr frs)
  from Cons.prems obtain ops where
    r: "resolve_frame fr acc = Inr ops" and
    rest: "foldE (\<lambda>fr processed_ops.
              bindE (resolve_frame fr processed_ops) (\<lambda>ops. Inr (processed_ops @ [ops])))
            frs (acc @ [ops]) = Inr ps"
    by (auto simp: bindE_def split: sum.splits)
  from Cons.IH [OF rest] have
    len: "length ps = length (acc @ [ops]) + length frs" and
    pre: "take (length (acc @ [ops])) ps = acc @ [ops]" and
    steps: "\<forall>i < length frs. resolve_frame (frs ! i) (take (length (acc @ [ops]) + i) ps)
                = Inr (ps ! (length (acc @ [ops]) + i))"
    by blast+
  have "take (length acc) (take (length (acc @ [ops])) ps) = take (length acc) (acc @ [ops])"
    by (simp only: pre)
  then have pre': "take (length acc) ps = acc"
    by simp
  have "take (length (acc @ [ops])) ps ! length acc = (acc @ [ops]) ! length acc"
    by (simp only: pre)
  then have at: "ps ! length acc = ops"
    by simp
  show ?case
  proof (intro conjI allI impI)
    show "length ps = length acc + length (fr # frs)" using len by simp
    show "take (length acc) ps = acc" by (rule pre')
  next
    fix i assume i: "i < length (fr # frs)"
    show "resolve_frame ((fr # frs) ! i) (take (length acc + i) ps) = Inr (ps ! (length acc + i))"
    proof (cases i)
      case 0
      then show ?thesis using r pre' at by simp
    next
      case (Suc j)
      with i have "j < length frs" by simp
      with steps have "resolve_frame (frs ! j) (take (length (acc @ [ops]) + j) ps)
                = Inr (ps ! (length (acc @ [ops]) + j))" by blast
      then show ?thesis using Suc by simp
    qed
  qed
qed

lemma process_frame_inheritance_steps:
  assumes "process_frame_inheritance frames = Inr processed" and "i < length frames"
  shows "length processed = length frames"
    and "resolve_frame (frames ! i) (take i processed) = Inr (processed ! i)"
  using resolve_steps [of frames "[]" processed] assms
  by (simp_all add: process_frame_inheritance_def)

text \<open>
  C10.  In a document that the resolver resolves, let frame \<open>i\<close> have \<open>base = -k\<close> with
  \<open>1 \<le> k \<le> i\<close>.  The validator reports nothing about \<open>base\<close> for that frame (its only
  possible diagnostic is the one about missing overrides and append_ops), and the
  resolved ops of frame \<open>i\<close> are derived from the resolved ops of frame \<open>i - k\<close>.
\<close>

theorem negative_base_accepted_and_resolved:
  assumes res: "process_frame_inheritance frames = Inr processed"
    and i: "i < length frames"
    and has: "py_in ''base'' (frames ! i) = Inr True"
    and base: "py_item (frames ! i) ''base'' = Inr (JInt (- int k))"
    and k: "1 \<le> k" "k \<le> i"
  shows "(\<exists>errs. validate_frame (frames ! i) i n pth strict = Inr errs \<and>
            (\<forall>e \<in> set errs. message e = InheritedNeedsOverrides)) \<and>
         derive_frame (frames ! i) (processed ! (i - k)) = Inr (processed ! i)"
proof
  from base obtain kvs where fr: "frames ! i = JObj kvs"
    using py_item_Inr_obj by blast
  from k have "\<not> - int k \<ge> int i" by simp
  with has base show "\<exists>errs. validate_frame (frames ! i) i n pth strict = Inr errs \<and>
            (\<forall>e \<in> set errs. message e = InheritedNeedsOverrides)"
    by (simp add: validate_frame_def bindE_def fr)
next
  from res i have len: "length processed = length frames"
    and step: "resolve_frame (frames ! i) (take i processed) = Inr (processed ! i)"
    by (rule process_frame_inheritance_steps)+
  from i len have li: "length (take i processed) = i" by simp
  from k have "py_index i (- int k) = Some (i - k)"
    by (simp add: py_index_def nat_diff_distrib' int_ops)
  then have "py_get (take i processed) (- int k) = Inr (take i processed ! (i - k))"
    by (simp only: py_get_def li) simp
  also from k have "take i processed ! (i - k) = processed ! (i - k)" by simp
  finally have "resolve_frame (frames ! i) (take i processed)
      = derive_frame (frames ! i) (processed ! (i - k))"
    using has base by (simp add: resolve_frame_def bindE_def)
  with step show "derive_frame (frames ! i) (processed ! (i - k)) = Inr (processed ! i)" by simp
qed

lemma frames_negative_base_resolved:
  "process_frame_inheritance frames_negative_base =
     Inr [JArr [JArr [JStr ''clear'', JInt 0]],
          JArr [JArr [JStr ''clear'', JInt 1]],
          JArr [JArr [JStr ''clear'', JInt 0], JArr [JStr ''pixel'', JInt 1, JInt 0, JInt 0]]]"
  unfolding frames_negative_base_def by code_simp

theorem negative_base_accepted_and_resolved_witness:
  "process_frame_inheritance frames_negative_base =
     Inr [JArr [JArr [JStr ''clear'', JInt 0]],
          JArr [JArr [JStr ''clear'', JInt 1]],
          JArr [JArr [JStr ''clear'', JInt 0], JArr [JStr ''pixel'', JInt 1, JInt 0, JInt 0]]] \<and>
   (2::nat) < length frames_negative_base \<and>
   py_in ''base'' (frames_negative_base ! 2) = Inr True \<and>
   py_item (frames_negative_base ! 2) ''base'' = Inr (JInt (- int 2)) \<and>
   validate_frame (frames_negative_base ! 2) 2 2 None False = Inr [] \<and>
   derive_frame (frames_negative_base ! 2) (JArr [JArr [JStr ''clear'', JInt 0]])
     = Inr (JArr [JArr [JStr ''clear'', JInt 0], JArr [JStr ''pixel'', JInt 1, JInt 0, JInt 0]])"
proof -
  have a: "(2::nat) < length frames_negative_base"
    and b: "py_in ''base'' (frames_negative_base ! 2) = Inr True"
    and c: "py_item (frames_negative_base ! 2) ''base'' = Inr (JInt (- int 2))"
    and v: "validate_frame (frames_negative_base ! 2) 2 2 None False = Inr []"
    by (simp_all add: frames_negative_base_def validate_frame_def bindE_def)
  from negative_base_accepted_and_resolved [OF frames_negative_base_resolved a b c, of 2 None False]
  have "derive_frame (frames_negative_base ! 2) (JArr [JArr [JStr ''clear'', JInt 0]])
     = Inr (JArr [JArr [JStr ''clear'', JInt 0], JArr [JStr ''pixel'', JInt 1, JInt 0, JInt 0]])"
    by simp
  with frames_negative_base_resolved a b c v show ?thesis by simp
qed

section \<open>Layer state after layer_merge\<close>

lemma foldE_append:
  "foldE f (xs @ ys) s = bindE (foldE f xs s) (foldE f ys)"
  by (induction xs arbitrary: s) (simp_all add: bindE_def split: sum.splits)

lemma py_set_in_range:
  "i < length xs \<Longrightarrow> py_set xs (int i) v = Inr (xs[i := v])"
  by (simp add: py_set_def py_index_def)

text \<open>One layer laid over the buffer \<open>out\<close>.\<close>

lemma overlay_layer:
  assumes "length src \<le> length out"
  shows "\<exists>r. foldE (\<lambda>(i, v) out. if v \<noteq> 0 then py_set out (int i) v else Inr out)
               (enumerate 0 src) out = Inr r
             \<and> length r = length out
             \<and> (\<forall>i < length out. r ! i = (if i < length src \<and> src ! i \<noteq> 0 then src ! i else out ! i))"
  using assms
proof (induction src rule: rev_induct)
  case Nil
  then show ?case by simp
next
  case (snoc v vs)
  then have "length vs \<le> length out" by simp
  with snoc.IH obtain r where
    r: "foldE (\<lambda>(i, v) out. if v \<noteq> 0 then py_set out (int i) v else Inr out)
               (enumerate 0 vs) out = Inr r"
    and len: "length r = length out"
    and nth: "\<forall>i < length out. r ! i = (if i < length vs \<and> vs ! i \<noteq> 0 then vs ! i else out ! i)"
    by blast
  from snoc.prems len have lt: "length vs < length r" by simp
  have en: "enumerate 0 (vs @ [v]) = enumerate 0 vs @ [(length vs, v)]"
    by (simp add: enumerate_append_eq)
  have run: "foldE (\<lambda>(i, v) out. if v \<noteq> 0 then py_set out (int i) v else Inr out)
               (enumerate 0 (vs @ [v])) out = Inr (if v \<noteq> 0 then r[length vs := v] else r)"
    using r lt by (simp add: en foldE_append bindE_def py_set_in_range)
  have "\<forall>i < length out. (if v \<noteq> 0 then r[length vs := v] else r) ! i =
        (if i < length (vs @ [v]) \<and> (vs @ [v]) ! i \<noteq> 0 then (vs @ [v]) ! i else out ! i)"
    using nth len lt by (auto simp: nth_append nth_list_update less_Suc_eq)
  with run len show ?case by auto
qed

lemma merge_layers_length:
  "merge_layers ls order w h = Inr m \<Longrightarrow> length m = nat (w * h)"
proof -
  have "foldE (\<lambda>lname out.
        case ls lname of
          None \<Rightarrow> Inr out
        | Some src \<Rightarrow>
            foldE (\<lambda>(i, v) out. if v \<noteq> 0 then py_set out (int i) v else Inr out)
              (enumerate 0 src) out) order out = Inr m \<Longrightarrow> length m = length out" for out
  proof (induction order arbitrary: out)
    case Nil
    then show ?case by simp
  next
    case (Cons n ns)
    have inner: "foldE (\<lambda>(i, v) out. if v \<noteq> 0 then py_set out (int i) v else Inr out) xs out = Inr r
        \<Longrightarrow> length r = length out" for xs :: "(nat \<times> int) list" and out r
      by (induction xs arbitrary: out)
         (auto simp: py_set_def py_index_def split: sum.splits if_splits option.splits)
    from Cons.prems Cons.IH inner show ?case
      by (auto split: option.splits sum.splits) 
  qed
  then show "merge_layers ls order w h = Inr m \<Longrightarrow> length m = nat (w * h)"
    by (simp add: merge_layers_def zeros_def)
qed

lemma in_bounds_index:
  assumes "in_bounds x y w h"
  shows "0 \<le> y * w + x" and "y * w + x < w * h"
proof -
  from assms have x: "0 \<le> x" "x < w" and y: "0 \<le> y" "y < h"
    by (simp_all add: in_bounds_def)
  from x have w: "0 \<le> w" by simp
  from y w have "0 \<le> y * w" by simp
  with x show "0 \<le> y * w + x" by simp
  from y have "y + 1 \<le> h" by simp
  then have "(y + 1) * w \<le> h * w" using w by (rule mult_right_mono)
  moreover from x have "y * w + x < (y + 1) * w" by (simp add: algebra_simps)
  ultimately show "y * w + x < w * h" by (simp add: mult.commute)
qed

lemma merge_two_layers:
  assumes "t \<noteq> ''base''" and "length m = nat (w * h)" and "length b = nat (w * h)"
  shows "merge_layers [t \<mapsto> m, ''base'' \<mapsto> b] [t, ''base''] w h
         = Inr (map2 (\<lambda>p q. if q \<noteq> 0 then q else p) m b)"
proof -
  let ?f = "\<lambda>(i, v) out. if v \<noteq> 0 then py_set out (int i) v else Inr out"
  from assms(2) have "length m \<le> length (zeros w h)" by (simp add: zeros_def)
  from overlay_layer [OF this] obtain r1 where
    r1: "foldE ?f (enumerate 0 m) (zeros w h) = Inr r1"
    and len1: "length r1 = length (zeros w h)"
    and nth1: "\<forall>i < length (zeros w h). r1 ! i =
                 (if i < length m \<and> m ! i \<noteq> 0 then m ! i else zeros w h ! i)"
    by blast
  from assms(2) len1 have l1: "length r1 = length m" by (simp add: zeros_def)
  have "r1 = m"
  proof (rule nth_equalityI)
    show "length r1 = length m" by (rule l1)
  next
    fix i assume "i < length r1"
    with nth1 len1 l1 show "r1 ! i = m ! i" by (simp add: zeros_def)
  qed
  from assms(2,3) have "length b \<le> length m" by simp
  from overlay_layer [OF this] obtain r2 where
    r2: "foldE ?f (enumerate 0 b) m = Inr r2"
    and len2: "length r2 = length m"
    and nth2: "\<forall>i < length m. r2 ! i = (if i < length b \<and> b ! i \<noteq> 0 then b ! i else m ! i)"
    by blast
  have "r2 = map2 (\<lambda>p q. if q \<noteq> 0 then q else p) m b"
  proof (rule nth_equalityI)
    show "length r2 = length (map2 (\<lambda>p q. if q \<noteq> 0 then q else p) m b)"
      using len2 assms(2,3) by simp
  next
    fix i assume "i < length r2"
    with nth2 len2 assms(2,3) show "r2 ! i = map2 (\<lambda>p q. if q \<noteq> 0 then q else p) m b ! i"
      by simp
  qed
  with r1 r2 \<open>r1 = m\<close> assms(1) show ?thesis
    by (simp add: merge_layers_def)
qed

text \<open>
  C9.  From any layer state whose merged view is \<open>m\<close>: layer_merge with a target \<open>t\<close>
  other than \<open>base\<close> leaves the single layer \<open>t\<close>, holding \<open>m\<close>, with order \<open>[t]\<close>, and
  no layer \<open>base\<close>; layer_end then sets the current layer to \<open>base\<close>; the
  \<^verbatim>\<open>ensure_layer\<close> of the next drawing op creates \<open>base\<close> zero-filled and appends it
  after \<open>t\<close> (shown for the op \<open>pixel\<close>); and in the merged view every non-zero pixel of
  \<open>base\<close> overwrites the pixel of \<open>t\<close>.
\<close>

theorem layer_merge_drops_base:
  assumes t: "t \<noteq> ''base''" and m: "merged st w h = Inr m"
    and inb: "in_bounds x y w h" and c: "c \<noteq> 0"
  shows
    "render_op st w h (JArr [JStr ''layer_merge'', JStr t])
       = Inr \<lparr>layers = [t \<mapsto> m], layer_order = [t], current = t\<rparr>
     \<and> [t \<mapsto> m] ''base'' = None
     \<and> render_op \<lparr>layers = [t \<mapsto> m], layer_order = [t], current = t\<rparr> w h (JArr [JStr ''layer_end''])
       = Inr \<lparr>layers = [t \<mapsto> m], layer_order = [t], current = ''base''\<rparr>
     \<and> ensure_layer [t \<mapsto> m] [t] ''base'' w h
       = ([t \<mapsto> m, ''base'' \<mapsto> zeros w h], [t, ''base''], zeros w h)
     \<and> render_op \<lparr>layers = [t \<mapsto> m], layer_order = [t], current = ''base''\<rparr> w h
         (JArr [JStr ''pixel'', JInt c, JInt x, JInt y])
       = Inr \<lparr>layers = [t \<mapsto> m, ''base'' \<mapsto> (zeros w h)[nat (y * w + x) := c]],
              layer_order = [t, ''base''], current = ''base''\<rparr>
     \<and> merged \<lparr>layers = [t \<mapsto> m, ''base'' \<mapsto> (zeros w h)[nat (y * w + x) := c]],
                layer_order = [t, ''base''], current = ''base''\<rparr> w h
       = Inr (m[nat (y * w + x) := c])
     \<and> (\<forall>b. length b = nat (w * h) \<longrightarrow>
          merged \<lparr>layers = [t \<mapsto> m, ''base'' \<mapsto> b], layer_order = [t, ''base''],
                  current = ''base''\<rparr> w h
          = Inr (map2 (\<lambda>p q. if q \<noteq> 0 then q else p) m b))"
proof -
  from m have len: "length m = nat (w * h)"
    by (simp add: merged_def merge_layers_length)
  from inb have idx: "0 \<le> y * w + x" "y * w + x < w * h"
    by (rule in_bounds_index)+
  then have idx': "nat (y * w + x) < nat (w * h)" by simp
  have merge: "render_op st w h (JArr [JStr ''layer_merge'', JStr t])
       = Inr \<lparr>layers = [t \<mapsto> m], layer_order = [t], current = t\<rparr>"
    using m by (simp add: render_op_def dispatch_def op_layer_merge_def bindE_def py_get_def py_index_def)
  have gone: "[t \<mapsto> m] ''base'' = None"
    using t by simp
  have lend: "render_op \<lparr>layers = [t \<mapsto> m], layer_order = [t], current = t\<rparr> w h (JArr [JStr ''layer_end''])
       = Inr \<lparr>layers = [t \<mapsto> m], layer_order = [t], current = ''base''\<rparr>"
    by (simp add: render_op_def dispatch_def op_layer_end_def bindE_def)
  have ens: "ensure_layer [t \<mapsto> m] [t] ''base'' w h
       = ([t \<mapsto> m, ''base'' \<mapsto> zeros w h], [t, ''base''], zeros w h)"
    using t by (simp add: ensure_layer_def)
  have put: "py_set (zeros w h) (y * w + x) c = Inr ((zeros w h)[nat (y * w + x) := c])"
    using idx by (simp add: py_set_def py_index_def zeros_def)
  have pix: "render_op \<lparr>layers = [t \<mapsto> m], layer_order = [t], current = ''base''\<rparr> w h
         (JArr [JStr ''pixel'', JInt c, JInt x, JInt y])
       = Inr \<lparr>layers = [t \<mapsto> m, ''base'' \<mapsto> (zeros w h)[nat (y * w + x) := c]],
              layer_order = [t, ''base''], current = ''base''\<rparr>"
    using inb by (simp add: render_op_def dispatch_def op_pixel_def bindE_def unpack_ints_def py_slice_def
        on_current_def ens put)
  have over: "merged \<lparr>layers = [t \<mapsto> m, ''base'' \<mapsto> b], layer_order = [t, ''base''],
                  current = ''base''\<rparr> w h
          = Inr (map2 (\<lambda>p q. if q \<noteq> 0 then q else p) m b)" if "length b = nat (w * h)" for b
    using merge_two_layers [OF t len that] by (simp add: merged_def)
  have "map2 (\<lambda>p q. if q \<noteq> 0 then q else p) m ((zeros w h)[nat (y * w + x) := c])
        = m[nat (y * w + x) := c]"
    using len c idx' by (intro nth_equalityI) (simp_all add: zeros_def nth_list_update)
  with over [of "(zeros w h)[nat (y * w + x) := c]"]
  have seen: "merged \<lparr>layers = [t \<mapsto> m, ''base'' \<mapsto> (zeros w h)[nat (y * w + x) := c]],
                layer_order = [t, ''base''], current = ''base''\<rparr> w h
       = Inr (m[nat (y * w + x) := c])"
    by (simp add: zeros_def)
  from merge gone lend ens pix seen over show ?thesis by blast
qed

theorem layer_merge_drops_base_witness:
  "''top'' \<noteq> ''base'' \<and>
   merged \<lparr>layers = [''base'' \<mapsto> [5, 5]], layer_order = [''base''], current = ''base''\<rparr> 2 1 = Inr [5, 5] \<and>
   in_bounds 1 0 2 1 \<and> (7::int) \<noteq> 0 \<and>
   render_op \<lparr>layers = [''base'' \<mapsto> [5, 5]], layer_order = [''base''], current = ''base''\<rparr> 2 1
       (JArr [JStr ''layer_merge'', JStr ''top''])
     = Inr \<lparr>layers = [''top'' \<mapsto> [5, 5]], layer_order = [''top''], current = ''top''\<rparr> \<and>
   merged \<lparr>layers = [''top'' \<mapsto> [5, 5], ''base'' \<mapsto> (zeros 2 1)[nat (0 * 2 + 1) := 7]],
            layer_order = [''top'', ''base''], current = ''base''\<rparr> 2 1
     = Inr ([5, 5][nat (0 * 2 + 1) := 7])"
proof -
  have a: "''top'' \<noteq> ''base''" by simp
  have b: "merged \<lparr>layers = [''base'' \<mapsto> [5, 5]], layer_order = [''base''], current = ''base''\<rparr> 2 1
           = Inr [5, 5]"
    by code_simp
  have c: "in_bounds 1 0 2 1" by (simp add: in_bounds_def)
  have d: "(7::int) \<noteq> 0" by simp
  from layer_merge_drops_base [OF a b c d] a b c d show ?thesis by blast
qed

section \<open>shade_band with an unsupported side\<close>

text \<open>
  C7 (a defect of the code).  The claim: a shade_band op whose side is not one of right,
  bottom, top_left, edge yields a diagnostic or a runtime error.  The validator never
  looks at the side, and shade_band raises only inside its pixel loop, after the test
  \<^verbatim>\<open>if mask[idx] == 0: continue\<close>: on a mask without a non-zero pixel nothing is raised.
  The document validates (strict or not) and its frame renders to the empty canvas.
\<close>

theorem unknown_side_rendered_silently:
  "validate_sprite doc_unknown_side None False = Inr [] \<and>
   validate_sprite doc_unknown_side None True = Inr [] \<and>
   process_frame_inheritance [JObj [(''ops'', JArr [JArr [JStr ''shade_band'', JInt 1, JStr ''base'', JStr ''left'']])]]
     = Inr [JArr [JArr [JStr ''shade_band'', JInt 1, JStr ''base'', JStr ''left'']]] \<and>
   render_frame (JArr [JArr [JStr ''shade_band'', JInt 1, JStr ''base'', JStr ''left'']]) 2 1 = Inr [0, 0]"
  unfolding doc_unknown_side_def by code_simp

text \<open>With a non-zero pixel in the mask the same op does raise.\<close>

lemma unknown_side_raises_on_nonzero_mask:
   "render_frame (JArr [JArr [JStr ''clear'', JInt 1], JArr [JStr ''shade_band'', JInt 1, JStr ''base'', JStr ''left'']]) 2 1 = Inl (UnsupportedSide ''left'')"
  by code_simp

section \<open>Thick line\<close>

lemma py_range_length: "length (py_range 0 n) = nat n"
  by (simp add: py_range_def)

lemma py_range_nth: "i < nat n \<Longrightarrow> py_range 0 n ! i = int i"
  by (simp add: py_range_def)

lemma py_round_of_int: "py_round (real_of_int n) = n"
  by (simp add: py_round_def)

lemma sqrt_2_bounds: "2 \<le> math_sqrt 2 * 2" "math_sqrt 2 * 2 < 3"
proof -
  have "1 \<le> sqrt 2" by simp
  then show "2 \<le> math_sqrt 2 * 2" by (simp add: math_sqrt_def)
  have "sqrt 2 < sqrt ((3 / 2)\<^sup>2)"
    by (subst real_sqrt_less_iff) (simp add: power2_eq_square)
  then have "sqrt 2 < 3 / 2" by simp
  then show "math_sqrt 2 * 2 < 3" by (simp add: math_sqrt_def)
qed

lemma trunc_2_sqrt_2: "py_trunc (math_sqrt 2 * 2) = 2"
proof -
  from sqrt_2_bounds have "\<lfloor>math_sqrt 2 * 2\<rfloor> = 2" by linarith
  with sqrt_2_bounds show ?thesis by (simp add: py_trunc_def)
qed

lemma ceil_sqrt_2: "\<lceil>sqrt 2\<rceil> = (2::int)"
proof -
  have "1 < sqrt 2" by simp
  moreover from sqrt_2_bounds have "sqrt 2 \<le> 2" by (simp add: math_sqrt_def)
  ultimately show ?thesis by linarith
qed

lemma stamps_diag: "thick_line_stamps 0 0 1 1 4 = [(0, 0, 2, 2), (0, 0, 2, 2), (1, 1, 2, 2)]"
proof -
  have nz: "math_sqrt 2 \<noteq> 0" using sqrt_2_bounds by auto
  have r: "py_range 0 3 = [0, 1, 2]" by code_simp
  have rd: "py_round 0 = 0" "py_round (1 / 2) = 0" "py_round 1 = 1"
    by (simp_all add: py_round_def)
  show ?thesis
    by (simp add: thick_line_stamps_def nz trunc_2_sqrt_2 r rd Let_def)
qed


lemma sum_squares_pos:
  fixes dx dy :: int
  assumes "\<not> (dx = 0 \<and> dy = 0)"
  shows "1 \<le> dx * dx + dy * dy"
proof -
  have "0 \<le> dx * dx" "0 \<le> dy * dy" by simp_all
  moreover from assms have "0 < dx * dx \<or> 0 < dy * dy"
    by (auto simp: zero_less_mult_iff less_linear)
  ultimately show ?thesis by linarith
qed



text \<open>For a thickness of at most 1 no circle is stamped: the function is draw_line.\<close>

lemma thin_line_is_draw_line:
  "thickness \<le> 1 \<Longrightarrow>
   draw_thick_line buf w h color x0 y0 x1 y1 thickness = draw_line buf w h color x0 y0 x1 y1"
  by (simp add: draw_thick_line_def)

section \<open>Bounds safety of the raster primitives\<close>

lemma keeps_safeI:
  "(\<And>cv. safe w h cv \<Longrightarrow> \<exists>cv'. f cv = Inr cv' \<and> safe w h cv') \<Longrightarrow> keeps_safe w h f"
  by (simp add: keeps_safe_def)

lemma keeps_safeD:
  "keeps_safe w h f \<Longrightarrow> safe w h cv \<Longrightarrow> \<exists>cv'. f cv = Inr cv' \<and> safe w h cv'"
  by (simp add: keeps_safe_def)

lemma keeps_safe_skip: "keeps_safe w h Inr"
  by (simp add: keeps_safe_def)

lemma keeps_safe_if:
  "(b \<Longrightarrow> keeps_safe w h f) \<Longrightarrow> (\<not> b \<Longrightarrow> keeps_safe w h g) \<Longrightarrow>
   keeps_safe w h (\<lambda>cv. if b then f cv else g cv)"
  by (simp add: keeps_safe_def)

lemma keeps_safe_bind:
  "keeps_safe w h f \<Longrightarrow> keeps_safe w h g \<Longrightarrow> keeps_safe w h (\<lambda>cv. bindE (f cv) g)"
  unfolding keeps_safe_def bindE_def by fastforce

lemma keeps_safe_foldE:
  assumes "\<And>x. x \<in> set xs \<Longrightarrow> keeps_safe w h (f x)"
  shows "keeps_safe w h (foldE f xs)"
  using assms
proof (induction xs)
  case Nil
  show ?case by (simp add: keeps_safe_def)
next
  case (Cons x xs)
  have "keeps_safe w h (f x)" by (rule Cons.prems) simp
  moreover have "keeps_safe w h (foldE f xs)" by (rule Cons.IH) (simp add: Cons.prems)
  ultimately show ?case unfolding keeps_safe_def by fastforce
qed

lemma keeps_safe_put:
  assumes "0 \<le> i" and "i < w * h"
  shows "keeps_safe w h (put i v)"
proof (rule keeps_safeI)
  fix cv assume "safe w h cv"
  with assms show "\<exists>cv'. put i v cv = Inr cv' \<and> safe w h cv'"
    by (simp add: safe_def put_def bindE_def py_set_def py_index_def)
qed

lemma keeps_safe_put_xy:
  assumes "0 \<le> x" "x < w" "0 \<le> y" "y < h"
  shows "keeps_safe w h (put (y * w + x) v)"
proof -
  from assms have "in_bounds x y w h" by (simp add: in_bounds_def)
  then have "0 \<le> y * w + x" "y * w + x < w * h" by (rule in_bounds_index)+
  then show ?thesis by (rule keeps_safe_put)
qed

lemma py_range_mem: "x \<in> set (py_range a b) \<longleftrightarrow> a \<le> x \<and> x < b"
  by (auto simp: py_range_def)

text \<open>The guarded store that most primitives end in.\<close>

lemma keeps_safe_plot:
  "keeps_safe w h (\<lambda>cv. if in_bounds x y w h then put (y * w + x) v cv else Inr cv)"
  by (rule keeps_safe_if) (simp_all add: in_bounds_def keeps_safe_put_xy keeps_safe_skip)

lemma keeps_safe_row:
  assumes "0 \<le> y" "y < h"
  shows "keeps_safe w h (foldE (\<lambda>x cv. if 0 \<le> x \<and> x < w then put (y * w + x) v cv else Inr cv) xs)"
  by (intro keeps_safe_foldE keeps_safe_if keeps_safe_skip keeps_safe_put_xy) (use assms in simp_all)

lemma rect_fill_safe: "keeps_safe w h (\<lambda>buf. rect_fill buf w h color x y rw rh)"
  unfolding rect_fill_def Let_def
  by (intro keeps_safe_foldE keeps_safe_if keeps_safe_skip keeps_safe_row) simp_all

lemma rect_stroke_safe: "keeps_safe w h (\<lambda>buf. rect_stroke buf w h color x y rw rh)"
  unfolding rect_stroke_def
  by (intro keeps_safe_bind keeps_safe_foldE keeps_safe_plot)

lemma dither_rect_safe: "keeps_safe w h (\<lambda>buf. dither_rect buf w h color x y rw rh pattern)"
  unfolding dither_rect_def Let_def
  by (intro keeps_safe_foldE keeps_safe_if keeps_safe_skip keeps_safe_put_xy) simp_all

lemma ellipse_fill_safe: "keeps_safe w h (\<lambda>buf. ellipse_fill buf w h color cx cy rx ry)"
  unfolding ellipse_fill_def Let_def
  by (intro keeps_safe_foldE keeps_safe_if keeps_safe_skip keeps_safe_plot keeps_safe_row) simp_all

lemma plot4_safe: "keeps_safe w h (plot4 w h color cx cy px py)"
  unfolding plot4_def
  by (intro keeps_safe_foldE) (auto simp: keeps_safe_plot)

lemma draw_bezier_safe: "keeps_safe w h (\<lambda>buf. draw_bezier buf w h color x0 y0 cx cy x1 y1)"
  unfolding draw_bezier_def Let_def
  by (intro keeps_safe_foldE keeps_safe_plot)

lemma draw_poly_safe: "keeps_safe w h (\<lambda>buf. draw_poly buf w h color points)"
  unfolding draw_poly_def Let_def
  by (intro keeps_safe_foldE keeps_safe_if keeps_safe_skip keeps_safe_put_xy) (auto intro!: keeps_safe_row)

lemma whileE_unfold:
  "whileE b c s = (if b s then (case c s of Inl e \<Rightarrow> Inl e | Inr t \<Rightarrow> whileE b c t) else Inr s)"
proof (cases "b s")
  case False
  then show ?thesis
    by (simp add: whileE_def while_option_unfold [of _ _ "Inr s"])
next
  case True
  show ?thesis
  proof (cases "c s")
    case (Inl e)
    with True show ?thesis
      by (simp add: whileE_def while_option_unfold [of _ _ "Inr s"] while_option_unfold [of _ _ "Inl e"])
  next
    case (Inr t)
    with True show ?thesis
      by (simp add: whileE_def while_option_unfold [of _ _ "Inr s"])
  qed
qed

text \<open>A loop whose body keeps an invariant and lowers a measure returns, with the invariant.\<close>

lemma whileE_total:
  fixes m :: "'s \<Rightarrow> nat"
  assumes step: "\<And>s. P s \<Longrightarrow> b s \<Longrightarrow> \<exists>s'. c s = Inr s' \<and> P s' \<and> m s' < m s"
    and init: "P s"
  shows "\<exists>t. whileE b c s = Inr t \<and> P t \<and> \<not> b t"
  using init
proof (induction s rule: measure_induct_rule [of m])
  case (less s)
  show ?case
  proof (cases "b s")
    case False
    with less.prems show ?thesis by (subst whileE_unfold) simp
  next
    case True
    with step less.prems obtain s' where s': "c s = Inr s'" "P s'" "m s' < m s" by blast
    from less.IH [OF s'(3) s'(2)] obtain t where "whileE b c s' = Inr t" "P t" "\<not> b t" by blast
    with True s' show ?thesis by (subst whileE_unfold) simp
  qed
qed

lemma ellipse_stroke_safe: "keeps_safe w h (\<lambda>buf. ellipse_stroke buf w h color cx cy rx ry)"
proof (rule keeps_safeI)
  fix buf assume safe: "safe w h buf"
  show "\<exists>cv'. ellipse_stroke buf w h color cx cy rx ry = Inr cv' \<and> safe w h cv'"
  proof (cases "rx \<le> 0 \<or> ry \<le> 0")
    case True
    with safe show ?thesis by (auto simp: ellipse_stroke_def)
  next
    case False
    then have rx: "0 < rx" and ry: "0 < ry" by simp_all
    define rx2 where "rx2 = rx * rx"
    define ry2 where "ry2 = ry * ry"
    from rx ry have pos: "0 \<le> 2 * rx2" "0 < 2 * ry2" by (simp_all add: rx2_def ry2_def)
    from keeps_safeD [OF plot4_safe safe] obtain b1 where
      b1: "plot4 w h color cx cy 0 ry buf = Inr b1" and s1: "safe w h b1" by blast
    define p1 where "p1 = py_round (real_of_int ry2 - real_of_int (rx2 * ry) + 0.25 * real_of_int rx2)"
    let ?P = "\<lambda>(x :: int, y :: int, px :: int, py :: int, p :: int, cv). safe w h cv"
    have "\<exists>t. whileE (\<lambda>(x, y, px, py, p, buf). px < py)
                 (region1_step w h color cx cy ry2 (2 * rx2) (2 * ry2))
                 (0, ry, 0, 2 * rx2 * ry, p1, b1) = Inr t \<and> ?P t
              \<and> \<not> (\<lambda>(x, y, px, py, p, buf). px < py) t"
    proof (rule whileE_total [where m = "\<lambda>(x, y, px, py, p, cv). nat (py - px)"])
      show "?P (0, ry, 0, 2 * rx2 * ry, p1, b1)" using s1 by simp
    next
      fix s :: "int \<times> int \<times> int \<times> int \<times> int \<times> canvas"
      assume inv: "?P s" and cond: "(\<lambda>(x, y, px, py, p, buf). px < py) s"
      obtain x y px py p cv where s: "s = (x, y, px, py, p, cv)" by (cases s)
      from inv s have scv: "safe w h cv" by simp
      from cond s have lt: "px < py" by simp
      show "\<exists>s'. region1_step w h color cx cy ry2 (2 * rx2) (2 * ry2) s = Inr s' \<and> ?P s'
              \<and> (\<lambda>(x, y, px, py, p, cv). nat (py - px)) s' < (\<lambda>(x, y, px, py, p, cv). nat (py - px)) s"
      proof (cases "p < 0")
        case True
        from keeps_safeD [OF plot4_safe scv] obtain cv' where
          "plot4 w h color cx cy (x + 1) y cv = Inr cv'" "safe w h cv'" by blast
        with True lt pos show ?thesis
          by (simp add: s region1_step_def bindE_def Let_def)
      next
        case False
        from keeps_safeD [OF plot4_safe scv] obtain cv' where
          "plot4 w h color cx cy (x + 1) (y - 1) cv = Inr cv'" "safe w h cv'" by blast
        with False lt pos show ?thesis
          by (simp add: s region1_step_def bindE_def Let_def)
      qed
    qed
    then obtain x y px py p b2 where
      r1: "whileE (\<lambda>(x, y, px, py, p, buf). px < py)
                 (region1_step w h color cx cy ry2 (2 * rx2) (2 * ry2))
                 (0, ry, 0, 2 * rx2 * ry, p1, b1) = Inr (x, y, px, py, p, b2)"
      and s2: "safe w h b2"
      by auto
    define p2 where "p2 = py_round (real_of_int ry2 * (real_of_int x + 0.5) * (real_of_int x + 0.5)
                          + real_of_int (rx2 * (y - 1) * (y - 1)) - real_of_int (rx2 * ry2))"
    have "\<exists>t. whileE (\<lambda>(x, y, px, py, p, buf). y > 0)
                 (region2_step w h color cx cy rx2 (2 * rx2) (2 * ry2))
                 (x, y, px, py, p2, b2) = Inr t \<and> ?P t
              \<and> \<not> (\<lambda>(x, y, px, py, p, buf). y > 0) t"
    proof (rule whileE_total [where m = "\<lambda>(x, y, px, py, p, cv). nat y"])
      show "?P (x, y, px, py, p2, b2)" using s2 by simp
    next
      fix s :: "int \<times> int \<times> int \<times> int \<times> int \<times> canvas"
      assume inv: "?P s" and cond: "(\<lambda>(x, y, px, py, p, buf). y > 0) s"
      obtain x y px py p cv where s: "s = (x, y, px, py, p, cv)" by (cases s)
      from inv s have scv: "safe w h cv" by simp
      from cond s have gt: "0 < y" by simp
      show "\<exists>s'. region2_step w h color cx cy rx2 (2 * rx2) (2 * ry2) s = Inr s' \<and> ?P s'
              \<and> (\<lambda>(x, y, px, py, p, cv). nat y) s' < (\<lambda>(x, y, px, py, p, cv). nat y) s"
      proof (cases "p > 0")
        case True
        from keeps_safeD [OF plot4_safe scv] obtain cv' where
          "plot4 w h color cx cy x (y - 1) cv = Inr cv'" "safe w h cv'" by blast
        with True gt show ?thesis
          by (simp add: s region2_step_def bindE_def Let_def)
      next
        case False
        from keeps_safeD [OF plot4_safe scv] obtain cv' where
          "plot4 w h color cx cy (x + 1) (y - 1) cv = Inr cv'" "safe w h cv'" by blast
        with False gt show ?thesis
          by (simp add: s region2_step_def bindE_def Let_def)
      qed
    qed
    then obtain x' y' px' py' p' b3 where
      r2: "whileE (\<lambda>(x, y, px, py, p, buf). y > 0)
                 (region2_step w h color cx cy rx2 (2 * rx2) (2 * ry2))
                 (x, y, px, py, p2, b2) = Inr (x', y', px', py', p', b3)"
      and s3: "safe w h b3"
      by auto
    from False b1 r1 r2 have "ellipse_stroke buf w h color cx cy rx ry = Inr b3"
      by (simp add: ellipse_stroke_def Let_def bindE_def rx2_def ry2_def p1_def p2_def)
    with s3 show ?thesis by blast
  qed
qed

lemma line_step_progress:
  fixes A B :: int
  assumes sx: "sx = 1 \<or> sx = - 1" and sy: "sy = 1 \<or> sy = - 1"
    and x1: "x1 = x0 + sx * A" and y1: "y1 = y0 + sy * B"
    and inv: "line_inv w h x0 y0 A B sx sy s" and go: "(\<lambda>(x, y, err, cv, go). go) s"
  shows "\<exists>s'. line_step w h color x1 y1 A (- B) sx sy s = Inr s' \<and> line_inv w h x0 y0 A B sx sy s'
           \<and> line_measure x1 y1 s' < line_measure x1 y1 s"
proof -
  obtain x y err cv g where s: "s = (x, y, err, cv, g)" by (cases s)
  with go have g: "g" by simp
  from inv s g obtain i j where scv: "safe w h cv"
    and i: "0 \<le> i" "i \<le> A" and j: "0 \<le> j" "j \<le> B"
    and x: "x = x0 + sx * i" and y: "y = y0 + sy * j"
    and err: "err = A * (1 + j) - B * (1 + i)"
    by (auto simp: line_inv_def)
  from keeps_safeD [OF keeps_safe_plot scv] obtain cv' where
    plot: "(if in_bounds x y w h then put (y * w + x) color cv else Inr cv) = Inr cv'"
    and scv': "safe w h cv'" by blast
  from sx have xi: "x = x1 \<longleftrightarrow> i = A" by (auto simp: x x1)
  from sy have yj: "y = y1 \<longleftrightarrow> j = B" by (auto simp: y y1)
  from sx i have dx: "\<bar>x1 - x\<bar> = A - i" by (auto simp: x x1 algebra_simps)
  from sy j have dy: "\<bar>y1 - y\<bar> = B - j" by (auto simp: y y1 algebra_simps)
  show ?thesis
  proof (cases "x = x1 \<and> y = y1")
    case True
    have "line_step w h color x1 y1 A (- B) sx sy s = Inr (x, y, err, cv', False)"
      unfolding s line_step_def prod.case plot bindE_def sum.case using True by simp
    with scv' show ?thesis
      by (simp add: s g line_inv_def line_measure_def)
  next
    case False
    with xi yj have unfinished: "i < A \<or> j < B" using i j by auto
    have no_x: "\<not> 2 * err \<ge> - B" if "i = A"
    proof -
      from that unfinished have jb: "1 + j \<le> B" by simp
      with i that have "A * (1 + j) \<le> A * B" by (intro mult_left_mono) simp_all
      moreover from jb j have "0 < B" by simp
      ultimately show ?thesis by (simp add: err that algebra_simps)
    qed
    have no_y: "\<not> 2 * err \<le> A" if "j = B"
    proof -
      from that unfinished have ia: "1 + i \<le> A" by simp
      with j that have "B * (1 + i) \<le> B * A" by (intro mult_left_mono) simp_all
      moreover from ia i have "0 < A" by simp
      ultimately show ?thesis by (simp add: err that algebra_simps)
    qed
    from i j have some: "2 * err \<ge> - B \<or> 2 * err \<le> A" by linarith
    define stepx where "stepx \<longleftrightarrow> 2 * err \<ge> - B"
    define stepy where "stepy \<longleftrightarrow> 2 * err \<le> A"
    define i' where "i' = (if stepx then i + 1 else i)"
    define j' where "j' = (if stepy then j + 1 else j)"
    have "i < A" if "stepx"
    proof (rule ccontr)
      assume "\<not> i < A"
      with i have "i = A" by simp
      from no_x [OF this] that show False by (simp add: stepx_def)
    qed
    with i have i'A: "i' \<le> A" by (auto simp: i'_def)
    have "j < B" if "stepy"
    proof (rule ccontr)
      assume "\<not> j < B"
      with j have "j = B" by simp
      from no_y [OF this] that show False by (simp add: stepy_def)
    qed
    with j have j'B: "j' \<le> B" by (auto simp: j'_def)
    define s' where "s' = (x0 + sx * i', y0 + sy * j', A * (1 + j') - B * (1 + i'), cv', True)"
    have run: "line_step w h color x1 y1 A (- B) sx sy s = Inr s'"
      unfolding s line_step_def prod.case plot bindE_def sum.case using False
      by (simp add: Let_def s'_def i'_def j'_def stepx_def stepy_def x y err algebra_simps)
    from i j have i'0: "0 \<le> i'" and j'0: "0 \<le> j'" by (simp_all add: i'_def j'_def)
    have "\<exists>i j. 0 \<le> i \<and> i \<le> A \<and> 0 \<le> j \<and> j \<le> B \<and> x0 + sx * i' = x0 + sx * i
              \<and> y0 + sy * j' = y0 + sy * j \<and> A * (1 + j') - B * (1 + i') = A * (1 + j) - B * (1 + i)"
      using i'0 i'A j'0 j'B by blast
    with scv' have inv': "line_inv w h x0 y0 A B sx sy s'"
      unfolding line_inv_def s'_def by simp
    from sx i i'A have dx': "\<bar>x1 - (x0 + sx * i')\<bar> = A - i'"
      by (auto simp: x1 algebra_simps i'_def)
    from sy j j'B have dy': "\<bar>y1 - (y0 + sy * j')\<bar> = B - j'"
      by (auto simp: y1 algebra_simps j'_def)
    from some have "i' + j' > i + j" by (auto simp: i'_def j'_def stepx_def stepy_def)
    with i'A j'B have "line_measure x1 y1 s' < line_measure x1 y1 s"
      by (simp add: line_measure_def s g s'_def dx dy dx' dy')
    with run inv' show ?thesis by blast
  qed
qed

lemma draw_line_safe: "keeps_safe w h (\<lambda>buf. draw_line buf w h color x0 y0 x1 y1)"
proof (rule keeps_safeI)
  fix buf assume safe: "safe w h buf"
  define A where "A = \<bar>x1 - x0\<bar>"
  define B where "B = \<bar>y1 - y0\<bar>"
  define sx :: int where "sx = (if x0 < x1 then 1 else - 1)"
  define sy :: int where "sy = (if y0 < y1 then 1 else - 1)"
  have sx: "sx = 1 \<or> sx = - 1" and sy: "sy = 1 \<or> sy = - 1" by (simp_all add: sx_def sy_def)
  have x1: "x1 = x0 + sx * A" and y1: "y1 = y0 + sy * B"
    by (simp_all add: sx_def sy_def A_def B_def)
  have "\<exists>t. whileE (\<lambda>(x, y, err, buf, go). go) (line_step w h color x1 y1 A (- B) sx sy)
              (x0, y0, A + - B, buf, True) = Inr t
            \<and> line_inv w h x0 y0 A B sx sy t \<and> \<not> (\<lambda>(x, y, err, buf, go). go) t"
  proof (rule whileE_total [where m = "line_measure x1 y1"])
    have "\<exists>i j. 0 \<le> i \<and> i \<le> A \<and> 0 \<le> j \<and> j \<le> B \<and> x0 = x0 + sx * i \<and> y0 = y0 + sy * j
              \<and> A + - B = A * (1 + j) - B * (1 + i)"
      by (intro exI [of _ 0] conjI) (simp_all add: A_def B_def)
    with safe show "line_inv w h x0 y0 A B sx sy (x0, y0, A + - B, buf, True)"
      by (simp add: line_inv_def)
  next
    fix s assume "line_inv w h x0 y0 A B sx sy s" "(\<lambda>(x, y, err, buf, go). go) s"
    with sx sy x1 y1
    show "\<exists>s'. line_step w h color x1 y1 A (- B) sx sy s = Inr s' \<and> line_inv w h x0 y0 A B sx sy s'
           \<and> line_measure x1 y1 s' < line_measure x1 y1 s"
      by (rule line_step_progress)
  qed
  then obtain x y err cv go where
    "whileE (\<lambda>(x, y, err, buf, go). go) (line_step w h color x1 y1 A (- B) sx sy)
              (x0, y0, A + - B, buf, True) = Inr (x, y, err, cv, go)"
    and "safe w h cv"
    by (auto simp: line_inv_def)
  then show "\<exists>cv'. draw_line buf w h color x0 y0 x1 y1 = Inr cv' \<and> safe w h cv'"
    by (simp add: draw_line_def Let_def bindE_def A_def B_def sx_def sy_def)
qed

lemma foldE_inv:
  assumes "\<And>x s. x \<in> set xs \<Longrightarrow> P s \<Longrightarrow> \<exists>s'. f x s = Inr s' \<and> P s'" and "P s"
  shows "\<exists>s'. foldE f xs s = Inr s' \<and> P s'"
  using assms
proof (induction xs arbitrary: s)
  case Nil
  then show ?case by simp
next
  case (Cons x xs)
  from Cons.prems obtain s1 where s1: "f x s = Inr s1" "P s1" by (meson list.set_intros(1))
  have "\<exists>s'. foldE f xs s1 = Inr s' \<and> P s'"
    by (rule Cons.IH) (use Cons.prems s1 in auto)
  with s1 show ?case by simp
qed

lemma draw_thick_line_safe:
  "keeps_safe w h (\<lambda>buf. draw_thick_line buf w h color x0 y0 x1 y1 thickness)"
proof (cases "thickness \<le> 1")
  case True
  then show ?thesis by (simp add: draw_thick_line_def draw_line_safe)
next
  case False
  have "keeps_safe w h (foldE (\<lambda>(cx, cy, rx, ry) cv. ellipse_fill cv w h color cx cy rx ry)
          (thick_line_stamps x0 y0 x1 y1 thickness))"
    by (rule keeps_safe_foldE) (auto simp: ellipse_fill_safe)
  with False show ?thesis by (simp add: draw_thick_line_def)
qed

lemma capsule_fill_safe: "keeps_safe w h (\<lambda>buf. capsule_fill buf w h color x0 y0 x1 y1 r)"
  by (simp add: capsule_fill_def draw_thick_line_safe)

text \<open>The index into the palette list lies in the list.\<close>

lemma palette_index:
  assumes "0 \<le> t" and "t \<le> 1" and "palette_indices \<noteq> []"
  shows "\<exists>c. py_get palette_indices (py_trunc (t * real_of_int (int (length palette_indices) - 1))) = Inr c"
proof -
  define n where "n = int (length palette_indices)"
  from assms(3) have n: "1 \<le> n" by (cases palette_indices) (simp_all add: n_def)
  then have nn: "0 \<le> real_of_int (n - 1)" by simp
  with assms(1) have lo: "0 \<le> t * real_of_int (n - 1)" by simp
  from assms(2) nn have "t * real_of_int (n - 1) \<le> 1 * real_of_int (n - 1)"
    by (rule mult_right_mono)
  then have hi: "t * real_of_int (n - 1) \<le> real_of_int (n - 1)" by simp
  from lo have "py_trunc (t * real_of_int (n - 1)) = \<lfloor>t * real_of_int (n - 1)\<rfloor>"
    by (simp add: py_trunc_def)
  moreover from lo have "0 \<le> \<lfloor>t * real_of_int (n - 1)\<rfloor>" by simp
  moreover have "\<lfloor>t * real_of_int (n - 1)\<rfloor> \<le> n - 1"
  proof -
    from hi have "\<lfloor>t * real_of_int (n - 1)\<rfloor> \<le> \<lfloor>real_of_int (n - 1)\<rfloor>" by (rule floor_mono)
    then show ?thesis by (simp only: floor_of_int)
  qed
  ultimately have "0 \<le> py_trunc (t * real_of_int (n - 1))" "py_trunc (t * real_of_int (n - 1)) < n"
    by simp_all
  then show ?thesis
    unfolding n_def by (simp add: py_get_def py_index_def)
qed

lemma keeps_safe_palette_put:
  assumes "0 \<le> t" "t \<le> 1" "palette_indices \<noteq> []" "0 \<le> x" "x < w" "0 \<le> y" "y < h"
  shows "keeps_safe w h (\<lambda>cv. bindE (py_get palette_indices
            (py_trunc (t * real_of_int (int (length palette_indices) - 1))))
          (\<lambda>c. put (y * w + x) c cv))"
proof -
  from assms(1-3) obtain c where
    "py_get palette_indices (py_trunc (t * real_of_int (int (length palette_indices) - 1))) = Inr c"
    using palette_index by blast
  moreover from assms(4-7) have "keeps_safe w h (put (y * w + x) c)"
    by (rule keeps_safe_put_xy)
  ultimately show ?thesis by (simp add: bindE_def)
qed

lemma gradient_linear_safe:
  "keeps_safe w h (\<lambda>buf. gradient_linear buf w h palette_indices x0 y0 x1 y1)"
  unfolding gradient_linear_def Let_def
proof (intro keeps_safe_if keeps_safe_skip keeps_safe_foldE keeps_safe_palette_put)
  fix x y
  assume "x \<in> set (py_range 0 w)" "y \<in> set (py_range 0 h)"
  then show "0 \<le> x" "x < w" "0 \<le> y" "y < h" by (simp_all add: py_range_mem)
qed simp_all

lemma gradient_radial_safe:
  "keeps_safe w h (\<lambda>buf. gradient_radial buf w h palette_indices cx cy r)"
  unfolding gradient_radial_def Let_def
proof (intro keeps_safe_if keeps_safe_skip keeps_safe_foldE keeps_safe_palette_put)
  fix xx yy
  assume "\<not> (palette_indices = [] \<or> r \<le> 0)"
    and "math_sqrt (real_of_int ((xx - cx)\<^sup>2 + (yy - cy)\<^sup>2)) \<le> real_of_int r"
  then show "math_sqrt (real_of_int ((xx - cx)\<^sup>2 + (yy - cy)\<^sup>2)) / real_of_int r \<le> 1"
    by simp
next
  fix xx yy
  show "0 \<le> math_sqrt (real_of_int ((xx - cx)\<^sup>2 + (yy - cy)\<^sup>2)) / real_of_int r"
    if "\<not> (palette_indices = [] \<or> r \<le> 0)"
    using that by (simp add: math_sqrt_def)
qed (simp_all add: in_bounds_def)

lemma py_get_in_range:
  "0 \<le> i \<Longrightarrow> i < int (length xs) \<Longrightarrow> py_get xs i = Inr (xs ! nat i)"
  by (simp add: py_get_def py_index_def)

lemma put_in_range:
  assumes "safe w h cv" and "0 \<le> i" and "i < w * h"
  shows "put i v cv = Inr \<lparr>pixels = (pixels cv)[nat i := v], writes = writes cv @ [i]\<rparr>"
    and "safe w h \<lparr>pixels = (pixels cv)[nat i := v], writes = writes cv @ [i]\<rparr>"
  using assms by (simp_all add: safe_def put_def bindE_def py_set_def py_index_def)

lemma color_replace_safe:
  assumes "case mask_layer of None \<Rightarrow> True | Some m \<Rightarrow> m = [] \<or> nat (w * h) \<le> length m"
  shows "keeps_safe w h (\<lambda>buf. color_replace buf w h old_c new_c mask_layer)"
  unfolding color_replace_def
proof (rule keeps_safe_foldE, rule keeps_safeI)
  fix i cv
  assume "i \<in> set (py_range 0 (w * h))" and scv: "safe w h cv"
  then have i: "0 \<le> i" "i < w * h" by (simp_all add: py_range_mem)
  have "\<exists>skip. (case mask_layer of
                 None \<Rightarrow> Inr False
               | Some m \<Rightarrow> if m = [] then Inr False else bindE (py_get m i) (\<lambda>v. Inr (v = 0))) = Inr skip"
  proof (cases mask_layer)
    case None
    then show ?thesis by auto
  next
    case (Some m)
    show ?thesis
    proof (cases "m = []")
      case True
      with Some show ?thesis by auto
    next
      case False
      with assms Some i have "i < int (length m)" by simp
      with i have "py_get m i = Inr (m ! nat i)" by (intro py_get_in_range)
      with Some False show ?thesis by (simp add: bindE_def)
    qed
  qed
  then obtain skip where
    skip: "(case mask_layer of
                 None \<Rightarrow> Inr False
               | Some m \<Rightarrow> if m = [] then Inr False else bindE (py_get m i) (\<lambda>v. Inr (v = 0))) = Inr skip" ..
  from scv i have rd: "py_get (pixels cv) i = Inr (pixels cv ! nat i)"
    by (intro py_get_in_range) (simp_all add: safe_def)
  from keeps_safeD [OF keeps_safe_put [OF i] scv] obtain cv' where
    "put i new_c cv = Inr cv'" "safe w h cv'" by blast
  with scv show "\<exists>cv'. bindE (case mask_layer of
                 None \<Rightarrow> Inr False
               | Some m \<Rightarrow> if m = [] then Inr False else bindE (py_get m i) (\<lambda>v. Inr (v = 0)))
          (\<lambda>skip.
             if skip then Inr cv
             else bindE (py_get (pixels cv) i) (\<lambda>v. if v = old_c then put i new_c cv else Inr cv))
          = Inr cv' \<and> safe w h cv'"
    by (simp add: skip rd bindE_def)
qed

text \<open>outline_layer: the working mask keeps the size of the canvas, and every collected index is on it.\<close>

lemma touching_returns:
  assumes "length work = nat (w * h)"
  shows "\<exists>b. touching work w h x y ds = Inr b"
proof (induction ds)
  case Nil
  have "touching work w h x y [] = Inr False" by simp
  then show ?case ..
next
  case (Cons d ds)
  obtain dx dy where d: "d = (dx, dy)" by (cases d)
  show ?case
  proof (cases "0 \<le> x + dx \<and> x + dx < w \<and> 0 \<le> y + dy \<and> y + dy < h")
    case True
    then have "in_bounds (x + dx) (y + dy) w h" by (simp add: in_bounds_def)
    then have "0 \<le> (y + dy) * w + (x + dx)" "(y + dy) * w + (x + dx) < w * h"
      by (rule in_bounds_index)+
    with assms have "py_get work ((y + dy) * w + (x + dx)) = Inr (work ! nat ((y + dy) * w + (x + dx)))"
      by (intro py_get_in_range) simp_all
    with True Cons.IH show ?thesis by (auto simp: d bindE_def Let_def)
  next
    case False
    with Cons.IH show ?thesis by (auto simp: d Let_def)
  qed
qed

lemma outline_add_returns:
  assumes "length work = nat (w * h)"
  shows "\<exists>add. outline_add work w h = Inr add \<and> list_all (\<lambda>i. 0 \<le> i \<and> i < w * h) add"
  unfolding outline_add_def
proof (rule foldE_inv [where P = "list_all (\<lambda>i. 0 \<le> i \<and> i < w * h)"])
  show "list_all (\<lambda>i. 0 \<le> i \<and> i < w * h) []" by simp
next
  fix y add0
  assume y: "y \<in> set (py_range 0 h)" and a0: "list_all (\<lambda>i. 0 \<le> i \<and> i < w * h) add0"
  show "\<exists>s'. foldE (\<lambda>x add.
         let idx = y * w + x in
         bindE (py_get work idx) (\<lambda>v.
           if v \<noteq> 0 then Inr add
           else bindE (touching work w h x y [(1, 0), (- 1, 0), (0, 1), (0, - 1)]) (\<lambda>touch.
             if touch then Inr (add @ [idx]) else Inr add)))
       (py_range 0 w) add0 = Inr s' \<and> list_all (\<lambda>i. 0 \<le> i \<and> i < w * h) s'"
  proof (rule foldE_inv [where P = "list_all (\<lambda>i. 0 \<le> i \<and> i < w * h)"])
    show "list_all (\<lambda>i. 0 \<le> i \<and> i < w * h) add0" by (rule a0)
  next
    fix x add
    assume x: "x \<in> set (py_range 0 w)" and a: "list_all (\<lambda>i. 0 \<le> i \<and> i < w * h) add"
    from x y have "in_bounds x y w h" by (simp add: py_range_mem in_bounds_def)
    then have idx: "0 \<le> y * w + x" "y * w + x < w * h" by (rule in_bounds_index)+
    with assms have rd: "py_get work (y * w + x) = Inr (work ! nat (y * w + x))"
      by (intro py_get_in_range) simp_all
    from touching_returns [OF assms] obtain b where
      "touching work w h x y [(1, 0), (- 1, 0), (0, 1), (0, - 1)] = Inr b" by blast
    with a idx show "\<exists>s'. (let idx = y * w + x in
         bindE (py_get work idx) (\<lambda>v.
           if v \<noteq> 0 then Inr add
           else bindE (touching work w h x y [(1, 0), (- 1, 0), (0, 1), (0, - 1)]) (\<lambda>touch.
             if touch then Inr (add @ [idx]) else Inr add))) = Inr s'
         \<and> list_all (\<lambda>i. 0 \<le> i \<and> i < w * h) s'"
      by (simp add: Let_def rd bindE_def)
  qed
qed

lemma outline_layer_safe: "keeps_safe w h (\<lambda>buf. outline_layer buf w h thickness color)"
proof (rule keeps_safeI)
  fix buf assume sb: "safe w h buf"
  let ?Q = "\<lambda>(cv, work :: int list). safe w h cv \<and> length work = nat (w * h)"
  have "\<exists>s'. foldE (\<lambda>pass (cv, work).
            bindE (outline_add work w h) (\<lambda>add.
              foldE (\<lambda>idx (cv, work).
                  bindE (put idx color cv) (\<lambda>cv.
                  bindE (py_set work idx 1) (\<lambda>work. Inr (cv, work))))
                add (cv, work)))
          (py_range 0 thickness) (buf, map (\<lambda>v. if v \<noteq> 0 then 1 else 0) (pixels buf)) = Inr s' \<and> ?Q s'"
  proof (rule foldE_inv [where P = ?Q])
    from sb show "?Q (buf, map (\<lambda>v. if v \<noteq> 0 then 1 else 0) (pixels buf))"
      by (simp add: safe_def)
  next
    fix pass :: int and s :: "canvas \<times> int list"
    assume q: "?Q s"
    obtain cv work where s: "s = (cv, work)" by (cases s)
    with q have scv: "safe w h cv" and lw: "length work = nat (w * h)" by simp_all
    from outline_add_returns [OF lw] obtain add where
      add: "outline_add work w h = Inr add" and rng: "list_all (\<lambda>i. 0 \<le> i \<and> i < w * h) add"
      by blast
    have "\<exists>s'. foldE (\<lambda>idx (cv, work).
                  bindE (put idx color cv) (\<lambda>cv.
                  bindE (py_set work idx 1) (\<lambda>work. Inr (cv, work))))
                add (cv, work) = Inr s' \<and> ?Q s'"
    proof (rule foldE_inv [where P = ?Q])
      show "?Q (cv, work)" using scv lw by simp
    next
      fix idx and s1 :: "canvas \<times> int list"
      assume "idx \<in> set add" and q1: "?Q s1"
      with rng have idx: "0 \<le> idx" "idx < w * h" by (simp_all add: list_all_iff)
      obtain cv1 work1 where s1: "s1 = (cv1, work1)" by (cases s1)
      with q1 have scv1: "safe w h cv1" and lw1: "length work1 = nat (w * h)" by simp_all
      note p = put_in_range [OF scv1 idx, of color]
      from idx lw1 have "py_set work1 idx 1 = Inr (work1[nat idx := 1])"
        by (simp add: py_set_def py_index_def)
      with p lw1 show "\<exists>s'. (case s1 of (cv, work) \<Rightarrow>
                  bindE (put idx color cv) (\<lambda>cv.
                  bindE (py_set work idx 1) (\<lambda>work. Inr (cv, work)))) = Inr s' \<and> ?Q s'"
        by (simp add: s1 bindE_def)
    qed
    with add show "\<exists>s'. (case s of (cv, work) \<Rightarrow>
            bindE (outline_add work w h) (\<lambda>add.
              foldE (\<lambda>idx (cv, work).
                  bindE (put idx color cv) (\<lambda>cv.
                  bindE (py_set work idx 1) (\<lambda>work. Inr (cv, work))))
                add (cv, work))) = Inr s' \<and> ?Q s'"
      by (simp add: s bindE_def)
  qed
  then show "\<exists>cv'. outline_layer buf w h thickness color = Inr cv' \<and> safe w h cv'"
    by (auto simp: outline_layer_def Let_def bindE_def)
qed

text \<open>
  flood_fill ends: every turn of the loop takes a pixel off the queue, and a turn that
  puts four back has just recoloured a pixel of the target colour.
\<close>

lemma count_list_update:
  assumes "i < length xs" and "xs ! i = t" and "c \<noteq> t"
  shows "Suc (count_list (xs[i := c]) t) = count_list xs t"
  using assms
proof (induction xs arbitrary: i)
  case Nil
  then show ?case by simp
next
  case (Cons x xs)
  then show ?case by (cases i) auto
qed

lemma flood_fill_safe: "keeps_safe w h (\<lambda>buf. flood_fill buf w h color sx sy)"
proof (rule keeps_safeI)
  fix buf assume sb: "safe w h buf"
  show "\<exists>cv'. flood_fill buf w h color sx sy = Inr cv' \<and> safe w h cv'"
  proof (cases "in_bounds sx sy w h")
    case False
    with sb show ?thesis by (simp add: flood_fill_def)
  next
    case True
    then have "0 \<le> sy * w + sx" "sy * w + sx < w * h" by (rule in_bounds_index)+
    with sb have rd: "py_get (pixels buf) (sy * w + sx) = Inr (pixels buf ! nat (sy * w + sx))"
      by (intro py_get_in_range) (simp_all add: safe_def)
    define target where "target = pixels buf ! nat (sy * w + sx)"
    show ?thesis
    proof (cases "target = color")
      case True
      with \<open>in_bounds sx sy w h\<close> sb show ?thesis
        by (simp add: flood_fill_def rd bindE_def target_def)
    next
      case False
      let ?P = "\<lambda>(q :: (int \<times> int) list, cv). safe w h cv"
      let ?m = "\<lambda>(q :: (int \<times> int) list, cv). 5 * count_list (pixels cv) target + length q"
      have "\<exists>t. whileE (\<lambda>(q, buf). q \<noteq> []) (flood_step w h color target) ([(sx, sy)], buf) = Inr t
                \<and> ?P t \<and> \<not> (\<lambda>(q, buf). q \<noteq> []) t"
      proof (rule whileE_total [where m = ?m])
        show "?P ([(sx, sy)], buf)" using sb by simp
      next
        fix s :: "(int \<times> int) list \<times> canvas"
        assume inv: "?P s" and cond: "(\<lambda>(q, buf). q \<noteq> []) s"
        obtain q cv where s: "s = (q, cv)" by (cases s)
        with inv have scv: "safe w h cv" by simp
        from cond s obtain x y q' where q: "q = (x, y) # q'" by (cases q) auto
        show "\<exists>s'. flood_step w h color target s = Inr s' \<and> ?P s' \<and> ?m s' < ?m s"
        proof (cases "in_bounds x y w h")
          case False
          with scv show ?thesis by (simp add: s q flood_step_def)
        next
          case True
          then have idx: "0 \<le> y * w + x" "y * w + x < w * h" by (rule in_bounds_index)+
          with scv have rd': "py_get (pixels cv) (y * w + x) = Inr (pixels cv ! nat (y * w + x))"
            by (intro py_get_in_range) (simp_all add: safe_def)
          show ?thesis
          proof (cases "pixels cv ! nat (y * w + x) = target")
            case False
            with True scv show ?thesis by (simp add: s q flood_step_def Let_def rd' bindE_def)
          next
            case eq: True
            note p = put_in_range [OF scv idx, of color]
            from idx scv have "nat (y * w + x) < length (pixels cv)" by (simp add: safe_def)
            from count_list_update [OF this eq] False
            have "Suc (count_list ((pixels cv)[nat (y * w + x) := color]) target)
                    = count_list (pixels cv) target" by simp
            then have "5 * count_list ((pixels cv)[nat (y * w + x) := color]) target + (length q' + 4)
                    < 5 * count_list (pixels cv) target + Suc (length q')" by linarith
            with True eq p show ?thesis
              by (simp add: s q flood_step_def Let_def rd' bindE_def)
          qed
        qed
      qed
      then obtain q cv where
        "whileE (\<lambda>(q, buf). q \<noteq> []) (flood_step w h color target) ([(sx, sy)], buf) = Inr (q, cv)"
        and "safe w h cv" by auto
      with \<open>in_bounds sx sy w h\<close> False show ?thesis
        by (simp add: flood_fill_def rd bindE_def target_def)
    qed
  qed
qed

lemma bounds_safeI:
  assumes "keeps_safe w h f" and "length (pixels buf) = nat (w * h)" and "writes buf = []"
  shows "bounds_safe w h buf (f buf)"
proof -
  from assms(2,3) have "safe w h buf" by (simp add: safe_def)
  from keeps_safeD [OF assms(1) this] assms(2) show ?thesis
    by (auto simp: bounds_safe_def safe_def)
qed



section \<open>Validator completeness\<close>


lemma validate_frames_all:
  assumes "validate_frames frs k n pth strict = Inr []" and "fr \<in> set frs"
  shows "\<exists>i. validate_frame fr i n pth strict = Inr []"
  using assms
proof (induction frs arbitrary: k)
  case Nil
  then show ?case by simp
next
  case (Cons f frs)
  from Cons.prems(1) have here: "validate_frame f k n pth strict = Inr []"
    and rest: "validate_frames frs (Suc k) n pth strict = Inr []"
    by (auto simp: bindE_def split: sum.splits)
  from Cons.prems(2) have "fr = f \<or> fr \<in> set frs" by simp
  then show ?case
  proof
    assume "fr = f"
    with here show ?thesis by blast
  next
    assume "fr \<in> set frs"
    with rest show ?thesis by (rule Cons.IH)
  qed
qed

lemma validate_ops_all:
  assumes "validate_ops ops k n dl pth fi strict = Inr []" and "op \<in> set ops"
  shows "\<exists>j dl'. validate_op op j n dl' pth fi strict = Inr []"
  using assms
proof (induction ops arbitrary: k dl)
  case Nil
  then show ?case by simp
next
  case (Cons p ps)
  from Cons.prems(1) obtain dl1 where here: "validate_op p k n dl pth fi strict = Inr []"
    and rest: "validate_ops ps (Suc k) n dl1 pth fi strict = Inr []"
    by (auto simp: bindE_def split: sum.splits if_splits)
  from Cons.prems(2) have "op = p \<or> op \<in> set ps" by simp
  then show ?case
  proof
    assume "op = p"
    with here show ?thesis by blast
  next
    assume "op \<in> set ps"
    with rest show ?thesis by (rule Cons.IH)
  qed
qed

lemma validate_op_shape:
  assumes "validate_op op j n dl pth fi strict = Inr []"
  shows "\<exists>nm args spec. op = JArr (JStr nm # args) \<and> get_op_spec nm = Some spec
            \<and> min_args spec \<le> length args \<and> length args \<le> max_args spec"
proof (cases op)
  case (JArr xs)
  show ?thesis
  proof (cases xs)
    case Nil
    with assms JArr show ?thesis by (simp add: validate_op_def)
  next
    case (Cons v args)
    show ?thesis
    proof (cases v)
      case (JStr nm)
      show ?thesis
      proof (cases "get_op_spec nm")
        case None
        with assms JArr Cons JStr show ?thesis by (simp add: validate_op_def)
      next
        case (Some spec)
        with assms JArr Cons JStr have "min_args spec \<le> length args \<and> length args \<le> max_args spec"
          by (auto simp: validate_op_def Let_def bindE_def split: sum.splits if_splits)
        with JArr Cons JStr Some show ?thesis by blast
      qed
    qed (use assms JArr Cons in \<open>simp_all add: validate_op_def\<close>)
  qed
qed (use assms in \<open>simp_all add: validate_op_def\<close>)

lemma dispatch_covers_table:
  "list_all (\<lambda>nm. case dispatch (JStr nm) of None \<Rightarrow> False | Some branch \<Rightarrow> True) (map fst OP_SPECS)"
  by code_simp

lemma dispatch_known:
  assumes "get_op_spec nm = Some spec"
  shows "\<exists>branch. dispatch (JStr nm) = Some branch"
proof -
  from assms have "(nm, spec) \<in> set OP_SPECS"
    by (simp add: get_op_spec_def map_of_SomeD)
  then have "nm \<in> set (map fst OP_SPECS)" by force
  with dispatch_covers_table
  have "case dispatch (JStr nm) of None \<Rightarrow> False | Some branch \<Rightarrow> True"
    by (simp only: list_all_iff)
  then show ?thesis by (cases "dispatch (JStr nm)") simp_all
qed

lemma py_item_in:
  assumes "py_item v k = Inr x"
  shows "py_in k v = Inr True"
proof -
  from assms obtain kvs where v: "v = JObj kvs" by (cases v) simp_all
  with assms have "map_of kvs k = Some x" by (simp split: option.splits)
  then have "k \<in> set (map fst kvs)" by (metis map_of_eq_None_iff option.distinct(1) set_map)
  with v show ?thesis by simp
qed



end
